theory Spec2Isabelle
  imports Complex_Main
begin

section \<open>FourQubitDetectorConstruction: the device assembler and its border surfaces\<close>

text \<open>
  A shallow embedding of \<^verbatim>\<open>src/FourQubitDetectorConstruction.cc\<close>: the member
  functions \<^verbatim>\<open>Construct\<close>, \<^verbatim>\<open>DefineMaterials\<close>, \<^verbatim>\<open>SetupGeometry\<close> and
  \<^verbatim>\<open>AttachPhononSensor\<close> as functions on an explicit state. The state holds the members
  of the class together with the process-wide Geant4 and G4CMP registries the code writes
  to (volume store, lattice manager, border-surface table, sensitive-detector manager).

  What is not in the embedding: solids and their dimensions, rotations and translations,
  visualisation attributes and the \<^verbatim>\<open>std::cout\<close> lines. None of them is read again by
  the code that decides which volumes and which border surfaces are created.
\<close>

subsection \<open>Strings\<close>

text \<open>\<^verbatim>\<open>std::string::find\<close>: the position of the first occurrence, \<open>None\<close> for
  \<^verbatim>\<open>std::string::npos\<close>.\<close>

fun starts_with :: "string \<Rightarrow> string \<Rightarrow> bool" where
  "starts_with s [] = True"
| "starts_with [] (p # ps) = False"
| "starts_with (c # cs) (p # ps) = (c = p \<and> starts_with cs ps)"

fun str_find :: "string \<Rightarrow> string \<Rightarrow> nat option" where
  "str_find [] pat = (if pat = [] then Some 0 else None)"
| "str_find (c # cs) pat =
     (if starts_with (c # cs) pat then Some 0 else map_option Suc (str_find cs pat))"

text \<open>\<^verbatim>\<open>sprintf(name, "%d", n)\<close> for a non-negative \<open>n\<close>.\<close>

fun sprintf_d :: "nat \<Rightarrow> string" where
  "sprintf_d n =
     (if n < 10 then [''0123456789'' ! n]
      else sprintf_d (n div 10) @ [''0123456789'' ! (n mod 10)])"

declare sprintf_d.simps [simp del]

subsection \<open>Data\<close>

text \<open>Numbers of type \<^verbatim>\<open>G4double\<close> are only stored by the code modelled here and never
  compared or computed on after they are stored.\<close>

type_synonym G4double = real

text \<open>A placed volume (\<^verbatim>\<open>G4VPhysicalVolume\<close>): its name, the name and material of its
  logical volume, and the name of the mother logical volume (\<open>None\<close> for the world).\<close>

record phys_vol =
  pv_name :: string
  lv_name :: string
  lv_material :: "string option"
  mother_lv :: "string option"

text \<open>The classes of sub-assemblies that \<^verbatim>\<open>SetupGeometry\<close> instantiates. Their
  constructors are declared in headers that the file includes; each builds its volumes
  under a mother logical volume and exposes \<^verbatim>\<open>GetPhysicalVolume()\<close> and
  \<^verbatim>\<open>GetListOfAllFundamentalSubVolumes()\<close>.\<close>

datatype asm_class =
    FourQubitQubitHousing
  | FourQubitTransmissionLine
  | FourQubitResonatorAssembly
  | FourQubitCurveFluxLine
  | FourQubitTransmon
  | FourQubitXmon
  | FourQubitResonator
  | FourQubitCurve
  | FourQubitStraight

text \<open>What the Geant4 volume stores hold: a volume placed by \<^verbatim>\<open>SetupGeometry\<close> itself,
  or the volumes of one sub-assembly, recorded as the constructor call that made them
  (class, name argument, name of the mother logical volume).\<close>

datatype store_entry =
    PVPlacement phys_vol
  | AssemblyObject asm_class string string

text \<open>One entry of a sub-assembly's list of fundamental sub-volumes:
  \<^verbatim>\<open>std::tuple<std::string, G4String, G4VPhysicalVolume*>\<close>, that is material, name
  and placed volume.\<close>

type_synonym sub_volume = "string \<times> string \<times> phys_vol"

record assembly =
  GetPhysicalVolume :: phys_vol
  GetListOfAllFundamentalSubVolumes :: "sub_volume list"

text \<open>The places in \<^verbatim>\<open>SetupGeometry\<close> where a sub-assembly is constructed, named after
  the local variable that receives the object.\<close>

datatype site =
    S_qubitHousing
  | S_tLine
  | S_resonatorAssembly nat
  | S_topStraightFLine
  | S_bottomStraightFLine
  | S_bottomRightFLine
  | S_topTransmon
  | S_bottomTransmon
  | S_topXmon
  | S_bottomXmon
  | S_topResonator0
  | S_topResonator1
  | S_bottomResonator0
  | S_bottomResonator1
  | S_bottomCurve1
  | S_bottomStraight1
  | S_bottomCurve2
  | S_bottomStraight2
  | S_bottomCurve3
  | S_bottomStraight3

text \<open>
  Everything \<^verbatim>\<open>SetupGeometry\<close> reads from outside the file: the toggles of the namespace
  \<^verbatim>\<open>FourQubitDetectorParameters\<close>, the object each sub-assembly constructor yields at
  each site (the constructors are not part of the file, so the objects are parameters,
  one per site, with no assumption on their contents), and the unit constants.
\<close>

record parameters =
  dp_useQubitHousing :: bool
  dp_useGroundPlane :: bool
  dp_useTransmissionLine :: bool
  dp_useResonatorAssembly :: bool
  dp_useFluxLines :: bool
  constructed :: "site \<Rightarrow> assembly"
  hertz :: G4double
  CLHEP_nm :: G4double
  CLHEP_eV :: G4double
  CLHEP_ps :: G4double
  CLHEP_km :: G4double
  CLHEP_s :: G4double

text \<open>A \<^verbatim>\<open>G4CMPSurfaceProperty\<close> object: its name, the eight coefficients given to the
  constructor, what \<^verbatim>\<open>AddScatteringProperties\<close> stored, the constant properties of its
  phonon material-properties table, and its phonon electrode.\<close>

record scattering =
  sc_anhCutoff :: G4double
  sc_reflCutoff :: G4double
  sc_anhCoeffs :: "G4double list"
  sc_diffCoeffs :: "G4double list"
  sc_specCoeffs :: "G4double list"
  sc_anhFreqUnits :: G4double
  sc_diffFreqUnits :: G4double
  sc_specFreqUnits :: G4double

datatype electrode = G4CMPPhononElectrode

record surface_property =
  sp_name :: string
  sp_coefficients :: "G4double list"
  sp_scattering :: "scattering option"
  sp_phononProperties :: "string \<rightharpoonup> G4double"
  sp_phononElectrode :: "electrode option"

text \<open>A \<^verbatim>\<open>G4CMPLogicalBorderSurface\<close>: name, the two volumes, and the pointer to the
  surface property (an index into the heap of property objects; \<open>None\<close> is the null
  pointer).\<close>

record border_surface =
  bs_name :: string
  bs_vol1 :: phys_vol
  bs_vol2 :: phys_vol
  bs_property :: "nat option"

record lattice =
  lat_name :: string
  lat_miller :: "int \<times> int \<times> int"

text \<open>The state: first the members of \<^verbatim>\<open>FourQubitDetectorConstruction\<close> (material
  pointers as the names of the materials), then the registries.\<close>

record state =
  fConstructed :: bool
  fWorldPhys :: "phys_vol option"
  fLiquidHelium :: "string option"
  fGermanium :: "string option"
  fSilicon :: "string option"
  fAluminum :: "string option"
  fTungsten :: "string option"
  fNiobium :: "string option"
  fSiNbInterface :: "nat option"
  fSiCopperInterface :: "nat option"
  fSiVacuumInterface :: "nat option"
  fSuperconductorSensitivity :: "string option"
  surfaceProperties :: "surface_property list"
  volumeStore :: "store_entry list"
  latticeTable :: "(phys_vol \<times> lattice) list"
  surfaceTable :: "border_surface list"
  sdManager :: "string list"
  siliconChipSD :: "string option"
  geometryHasBeenDestroyed :: bool

text \<open>The object as its constructor leaves it, in a process that has built nothing.\<close>

definition initial_state :: state where
  "initial_state =
     \<lparr> fConstructed = False, fWorldPhys = None,
       fLiquidHelium = None, fGermanium = None, fSilicon = None,
       fAluminum = None, fTungsten = None, fNiobium = None,
       fSiNbInterface = None, fSiCopperInterface = None, fSiVacuumInterface = None,
       fSuperconductorSensitivity = None,
       surfaceProperties = [], volumeStore = [], latticeTable = [], surfaceTable = [],
       sdManager = [], siliconChipSD = None, geometryHasBeenDestroyed = False \<rparr>"

subsection \<open>The registries\<close>

text \<open>\<^verbatim>\<open>new G4PVPlacement(...)\<close> registers the volume in the store.\<close>

definition new_G4PVPlacement :: "phys_vol \<Rightarrow> state \<Rightarrow> state" where
  "new_G4PVPlacement pv s = s\<lparr>volumeStore := volumeStore s @ [PVPlacement pv]\<rparr>"

text \<open>\<^verbatim>\<open>new FourQubit...(rot, translate, name, mother, false, 0, checkOverlaps)\<close>.\<close>

definition new_assembly :: "asm_class \<Rightarrow> string \<Rightarrow> string \<Rightarrow> state \<Rightarrow> state" where
  "new_assembly cls pName mother s =
     s\<lparr>volumeStore := volumeStore s @ [AssemblyObject cls pName mother]\<rparr>"

text \<open>\<^verbatim>\<open>new G4CMPLogicalBorderSurface(name, vol1, vol2, property)\<close> adds the surface to
  the table of border surfaces. The class belongs to the G4CMP library; the file hands
  it a name and never reads the table, so every surface is recorded, whatever its
  name.\<close>

definition new_G4CMPLogicalBorderSurface ::
  "string \<Rightarrow> phys_vol \<Rightarrow> phys_vol \<Rightarrow> nat option \<Rightarrow> state \<Rightarrow> state" where
  "new_G4CMPLogicalBorderSurface name v1 v2 prop s =
     s\<lparr>surfaceTable := surfaceTable s @
        [\<lparr>bs_name = name, bs_vol1 = v1, bs_vol2 = v2, bs_property = prop\<rparr>]\<rparr>"

text \<open>\<^verbatim>\<open>new G4CMPSurfaceProperty(name, ...)\<close>: a fresh object on the heap; the pointer is
  its index.\<close>

definition property_object :: "string \<Rightarrow> G4double list \<Rightarrow> surface_property" where
  "property_object name coeffs =
     \<lparr>sp_name = name, sp_coefficients = coeffs, sp_scattering = None,
      sp_phononProperties = Map.empty, sp_phononElectrode = None\<rparr>"

definition new_G4CMPSurfaceProperty ::
  "string \<Rightarrow> G4double list \<Rightarrow> surface_property list \<Rightarrow> nat option \<times> surface_property list" where
  "new_G4CMPSurfaceProperty name coeffs heap =
     (Some (length heap), heap @ [property_object name coeffs])"

text \<open>A member call through a pointer to a surface property. The code never calls
  through a null pointer; objects are never deleted, so a pointer stays in range.\<close>

definition on_property ::
  "nat option \<Rightarrow> (surface_property \<Rightarrow> surface_property) \<Rightarrow> surface_property list
     \<Rightarrow> surface_property list" where
  "on_property p f heap =
     (case p of None \<Rightarrow> heap
      | Some i \<Rightarrow> if i < length heap then heap[i := f (heap ! i)] else heap)"

definition AddScatteringProperties ::
  "G4double \<Rightarrow> G4double \<Rightarrow> G4double list \<Rightarrow> G4double list \<Rightarrow> G4double list
     \<Rightarrow> G4double \<Rightarrow> G4double \<Rightarrow> G4double \<Rightarrow> surface_property \<Rightarrow> surface_property" where
  "AddScatteringProperties anhCutoff reflCutoff anhCoeffs diffCoeffs specCoeffs u1 u2 u3 sp =
     sp\<lparr>sp_scattering := Some
        \<lparr>sc_anhCutoff = anhCutoff, sc_reflCutoff = reflCutoff, sc_anhCoeffs = anhCoeffs,
         sc_diffCoeffs = diffCoeffs, sc_specCoeffs = specCoeffs,
         sc_anhFreqUnits = u1, sc_diffFreqUnits = u2, sc_specFreqUnits = u3\<rparr>\<rparr>"

text \<open>\<^verbatim>\<open>G4MaterialPropertiesTable::AddConstProperty(key, value)\<close> sets the value of the
  key.\<close>

definition AddConstProperty :: "string \<Rightarrow> G4double \<Rightarrow> surface_property \<Rightarrow> surface_property" where
  "AddConstProperty key val sp = sp\<lparr>sp_phononProperties := (sp_phononProperties sp)(key \<mapsto> val)\<rparr>"

definition SetPhononElectrode :: "electrode \<Rightarrow> surface_property \<Rightarrow> surface_property" where
  "SetPhononElectrode e sp = sp\<lparr>sp_phononElectrode := Some e\<rparr>"

subsection \<open>AttachPhononSensor\<close>

definition sensor_model :: "parameters \<Rightarrow> surface_property \<Rightarrow> surface_property" where
  "sensor_model env sp =
     (let sp = AddConstProperty ''filmAbsorption'' 0.0 sp;
          sp = AddConstProperty ''filmThickness'' (90 * CLHEP_nm env) sp;
          sp = AddConstProperty ''gapEnergy'' (0.0016 * CLHEP_eV env) sp;
          sp = AddConstProperty ''lowQPLimit'' 3 sp;
          sp = AddConstProperty ''phononLifetime'' (4.17 * CLHEP_ps env) sp;
          sp = AddConstProperty ''phononLifetimeSlope'' 0.29 sp;
          sp = AddConstProperty ''vSound'' (3.480 * CLHEP_km env / CLHEP_s env) sp;
          sp = AddConstProperty ''subgapAbsorption'' 0.0 sp
      in SetPhononElectrode G4CMPPhononElectrode sp)"

definition AttachPhononSensor :: "parameters \<Rightarrow> nat option \<Rightarrow> state \<Rightarrow> state" where
  "AttachPhononSensor env surfProp s =
     (case surfProp of
        None \<Rightarrow> s
      | Some i \<Rightarrow>
          s\<lparr>surfaceProperties := on_property (Some i) (sensor_model env) (surfaceProperties s)\<rparr>)"

subsection \<open>DefineMaterials\<close>

definition DefineMaterials :: "state \<Rightarrow> state" where
  "DefineMaterials s =
     s\<lparr>fLiquidHelium := Some ''G4_AIR'',
       fGermanium := Some ''G4_Ge'',
       fSilicon := Some ''G4_Si'',
       fAluminum := Some ''G4_Al'',
       fTungsten := Some ''G4_W'',
       fNiobium := Some ''G4_Nb''\<rparr>"

subsection \<open>SetupGeometry\<close>

text \<open>The block under \<^verbatim>\<open>if (!fConstructed)\<close>: the three surface properties, their
  scattering properties, and the phonon sensor on the Si-Nb property.\<close>

definition define_surface_properties :: "parameters \<Rightarrow> state \<Rightarrow> state" where
  "define_surface_properties env s =
     (let GHz = 1000000000 * hertz env;
          anhCoeffs = [0, 0, 0, 0, 0, 0];
          diffCoeffs = [1, 0, 0, 0, 0, 0];
          specCoeffs = [0, 0, 0, 0, 0, 0];
          anhCutoff = 520; reflCutoff = 350;
          (pNb, h1) = new_G4CMPSurfaceProperty ''SiNbInterface''
                        [1.0, 0.0, 0.0, 0.0, 0.1, 1.0, 0.0, 0.0] (surfaceProperties s);
          (pCu, h2) = new_G4CMPSurfaceProperty ''SiCopperInterface''
                        [1.0, 0.0, 0.0, 0.0, 1.0, 0.0, 0.0, 0.0] h1;
          (pVac, h3) = new_G4CMPSurfaceProperty ''SiVacuumInterface''
                        [0.0, 1.0, 0.0, 0.0, 0.0, 1.0, 0.0, 0.0] h2;
          add = AddScatteringProperties anhCutoff reflCutoff anhCoeffs diffCoeffs specCoeffs
                  GHz GHz GHz;
          h4 = on_property pNb add h3;
          h5 = on_property pCu add h4;
          h6 = on_property pVac add h5;
          s1 = s\<lparr>fSiNbInterface := pNb, fSiCopperInterface := pCu, fSiVacuumInterface := pVac,
                 surfaceProperties := h6\<rparr>
      in AttachPhononSensor env (fSiNbInterface s1) s1)"

definition phys_world :: "state \<Rightarrow> phys_vol" where
  "phys_world s =
     \<lparr>pv_name = ''World'', lv_name = ''World'', lv_material = fLiquidHelium s,
      mother_lv = None\<rparr>"

definition phys_siliconChip :: "state \<Rightarrow> phys_vol" where
  "phys_siliconChip s =
     \<lparr>pv_name = ''SiliconChip'', lv_name = ''SiliconChip_log'', lv_material = fSilicon s,
      mother_lv = Some ''World''\<rparr>"

definition phys_groundPlane :: "state \<Rightarrow> phys_vol" where
  "phys_groundPlane s =
     \<lparr>pv_name = ''GroundPlane'', lv_name = ''GroundPlane_log'', lv_material = fNiobium s,
      mother_lv = Some ''World''\<rparr>"

text \<open>The loop over the fundamental sub-volumes of one sub-assembly. The source writes
  it out once per sub-assembly, with the same body each time: the name of the border
  surface, then one \<^verbatim>\<open>if\<close> for \<^verbatim>\<open>"Vacuum"\<close> and one \<^verbatim>\<open>if\<close> for \<^verbatim>\<open>"Niobium"\<close>.\<close>

fun border_loop :: "phys_vol \<Rightarrow> sub_volume list \<Rightarrow> state \<Rightarrow> state" where
  "border_loop chip [] s = s"
| "border_loop chip ((material, name, vol) # rest) s =
     (let tempName = ''border_siliconChip_'' @ name;
          s1 = (if str_find material ''Vacuum'' \<noteq> None
                then new_G4CMPLogicalBorderSurface tempName chip vol (fSiVacuumInterface s) s
                else s);
          s2 = (if str_find material ''Niobium'' \<noteq> None
                then new_G4CMPLogicalBorderSurface tempName chip vol (fSiNbInterface s1) s1
                else s1)
      in border_loop chip rest s2)"

text \<open>A constructor call at a site, followed by the loop over the new object's list.\<close>

text \<open>The surfaces the loop creates for one sub-volume, and for a whole list, as
  values: \<open>border_loop_eq\<close> below shows that the loop appends exactly these.\<close>

fun leaf_surfaces :: "phys_vol \<Rightarrow> nat option \<Rightarrow> nat option \<Rightarrow> sub_volume \<Rightarrow> border_surface list" where
  "leaf_surfaces chip vac nb (material, name, vol) =
     (if str_find material ''Vacuum'' \<noteq> None
      then [\<lparr>bs_name = ''border_siliconChip_'' @ name, bs_vol1 = chip, bs_vol2 = vol,
             bs_property = vac\<rparr>] else []) @
     (if str_find material ''Niobium'' \<noteq> None
      then [\<lparr>bs_name = ''border_siliconChip_'' @ name, bs_vol1 = chip, bs_vol2 = vol,
             bs_property = nb\<rparr>] else [])"

definition list_surfaces ::
  "phys_vol \<Rightarrow> nat option \<Rightarrow> nat option \<Rightarrow> sub_volume list \<Rightarrow> border_surface list" where
  "list_surfaces chip vac nb ls = concat (map (leaf_surfaces chip vac nb) ls)"

definition construct_and_border ::
  "parameters \<Rightarrow> phys_vol \<Rightarrow> asm_class \<Rightarrow> string \<Rightarrow> site \<Rightarrow> state \<Rightarrow> state" where
  "construct_and_border env chip cls pName st s =
     border_loop chip (GetListOfAllFundamentalSubVolumes (constructed env st))
       (new_assembly cls pName ''GroundPlane_log'' s)"

definition setup_qubitHousing :: "parameters \<Rightarrow> phys_vol \<Rightarrow> state \<Rightarrow> state" where
  "setup_qubitHousing env chip s =
     (let s1 = new_assembly FourQubitQubitHousing ''QubitHousing'' ''World'' s;
          phys_qubitHousing = GetPhysicalVolume (constructed env S_qubitHousing)
      in new_G4CMPLogicalBorderSurface ''border_siliconChip_qubitHousing'' chip
           phys_qubitHousing (fSiCopperInterface s1) s1)"

definition setup_transmissionLine :: "parameters \<Rightarrow> phys_vol \<Rightarrow> state \<Rightarrow> state" where
  "setup_transmissionLine env chip s =
     construct_and_border env chip FourQubitTransmissionLine ''TransmissionLine'' S_tLine s"

text \<open>The body of the loop \<^verbatim>\<open>for (int iR = 0; iR < nR; ++iR)\<close>.\<close>

definition setup_resonatorAssembly :: "parameters \<Rightarrow> phys_vol \<Rightarrow> nat \<Rightarrow> state \<Rightarrow> state" where
  "setup_resonatorAssembly env chip iR s =
     construct_and_border env chip FourQubitResonatorAssembly
       (''ResonatorAssembly_'' @ sprintf_d iR) (S_resonatorAssembly iR) s"

definition setup_fluxLines :: "parameters \<Rightarrow> phys_vol \<Rightarrow> state \<Rightarrow> state" where
  "setup_fluxLines env chip s =
     (let s1 = construct_and_border env chip FourQubitCurveFluxLine ''TopStraightFluxLine''
                 S_topStraightFLine s;
          s2 = construct_and_border env chip FourQubitCurveFluxLine ''BottomStraightFluxLine''
                 S_bottomStraightFLine s1;
          s3 = construct_and_border env chip FourQubitCurveFluxLine ''bottomRightFluxLine''
                 S_bottomRightFLine s2
      in s3)"

text \<open>The elements after the flux lines, under no toggle of their own: two transmons,
  two Xmons, four resonators, then the chain of three curves and three straights, whose
  six constructor calls come first and are followed by the loops of \<^verbatim>\<open>bottomStraight1\<close>
  and of \<^verbatim>\<open>bottomCurve1\<close>.\<close>

definition setup_qubit_elements :: "parameters \<Rightarrow> phys_vol \<Rightarrow> state \<Rightarrow> state" where
  "setup_qubit_elements env chip s =
     (let s = construct_and_border env chip FourQubitTransmon ''Transmon'' S_topTransmon s;
          s = construct_and_border env chip FourQubitTransmon ''Transmon'' S_bottomTransmon s;
          s = construct_and_border env chip FourQubitXmon ''Xmon'' S_topXmon s;
          s = construct_and_border env chip FourQubitXmon ''Xmon'' S_bottomXmon s;
          s = construct_and_border env chip FourQubitResonator ''Resonator0'' S_topResonator0 s;
          s = construct_and_border env chip FourQubitResonator ''Resonator1'' S_topResonator1 s;
          s = construct_and_border env chip FourQubitResonator ''Resonator0'' S_bottomResonator0 s;
          s = construct_and_border env chip FourQubitResonator ''Resonator1'' S_bottomResonator1 s;
          s = new_assembly FourQubitCurve ''Curve1'' ''GroundPlane_log'' s;
          s = new_assembly FourQubitStraight ''Straight1'' ''GroundPlane_log'' s;
          s = new_assembly FourQubitCurve ''Curve2'' ''GroundPlane_log'' s;
          s = new_assembly FourQubitStraight ''Straight2'' ''GroundPlane_log'' s;
          s = new_assembly FourQubitCurve ''Curve3'' ''GroundPlane_log'' s;
          s = new_assembly FourQubitStraight ''Straight3'' ''GroundPlane_log'' s;
          s = border_loop chip
                (GetListOfAllFundamentalSubVolumes (constructed env S_bottomStraight1)) s;
          s = border_loop chip
                (GetListOfAllFundamentalSubVolumes (constructed env S_bottomCurve1)) s
      in s)"

definition setup_groundPlane :: "parameters \<Rightarrow> phys_vol \<Rightarrow> state \<Rightarrow> state" where
  "setup_groundPlane env chip s =
     (let gp = phys_groundPlane s;
          s = new_G4PVPlacement gp s;
          s = new_G4CMPLogicalBorderSurface ''border_siliconChip_groundPlane'' chip gp
                (fSiNbInterface s) s;
          s = (if dp_useTransmissionLine env then setup_transmissionLine env chip s else s);
          s = (if dp_useResonatorAssembly env
               then fold (setup_resonatorAssembly env chip) [0..<6] s else s);
          s = (if dp_useFluxLines env then setup_fluxLines env chip s else s)
      in setup_qubit_elements env chip s)"

text \<open>The sensitive detector: created once, registered with the manager under its name
  (a name already registered is not added again), and set on the chip's logical
  volume.\<close>

definition setup_sensitivity :: "state \<Rightarrow> state" where
  "setup_sensitivity s =
     (let sd = (case fSuperconductorSensitivity s of
                  None \<Rightarrow> ''PhononElectrode'' | Some d \<Rightarrow> d);
          s = s\<lparr>fSuperconductorSensitivity := Some sd\<rparr>;
          s = s\<lparr>sdManager := List.insert sd (sdManager s)\<rparr>
      in s\<lparr>siliconChipSD := Some sd\<rparr>)"

text \<open>Everything in \<^verbatim>\<open>SetupGeometry\<close> after the block of the surface properties.\<close>

definition setup_components :: "parameters \<Rightarrow> state \<Rightarrow> state" where
  "setup_components env s =
     (let world = phys_world s;
          s = new_G4PVPlacement world (s\<lparr>fWorldPhys := Some world\<rparr>);
          chip = phys_siliconChip s;
          s = new_G4PVPlacement chip s;
          s = s\<lparr>latticeTable := latticeTable s @
                 [(chip, \<lparr>lat_name = ''Si'', lat_miller = (1, 0, 0)\<rparr>)]\<rparr>;
          s = new_G4CMPLogicalBorderSurface ''border_siliconChip_world'' chip world
                (fSiVacuumInterface s) s;
          s = (if dp_useQubitHousing env then setup_qubitHousing env chip s else s);
          s = (if dp_useGroundPlane env then setup_groundPlane env chip s else s)
      in setup_sensitivity s)"

definition SetupGeometry :: "parameters \<Rightarrow> state \<Rightarrow> state" where
  "SetupGeometry env s =
     (let s = (if \<not> fConstructed s then define_surface_properties env s else s)
      in setup_components env s)"

subsection \<open>Construct\<close>

text \<open>The block under \<^verbatim>\<open>if (fConstructed)\<close>: the volume stores (physical volumes,
  logical volumes and solids, here one store) are cleaned unless the run manager has
  already destroyed the geometry; the lattice manager is reset and the table of border
  surfaces is cleaned in either case. The surface properties are left alone.\<close>

definition clean_previous_generation :: "state \<Rightarrow> state" where
  "clean_previous_generation s =
     (let s = (if \<not> geometryHasBeenDestroyed s then s\<lparr>volumeStore := []\<rparr> else s);
          s = s\<lparr>latticeTable := []\<rparr>
      in s\<lparr>surfaceTable := []\<rparr>)"

definition Construct :: "parameters \<Rightarrow> state \<Rightarrow> phys_vol option \<times> state" where
  "Construct env s =
     (let s = (if fConstructed s then clean_previous_generation s else s);
          s = DefineMaterials s;
          s = SetupGeometry env s;
          s = s\<lparr>fConstructed := True\<rparr>
      in (fWorldPhys s, s))"

subsection \<open>One generation, as values\<close>

text \<open>The sites whose lists \<^verbatim>\<open>SetupGeometry\<close> loops over and the objects it constructs,
  in the order of the source. The lemmas \<open>setup_groundPlane_eq\<close> and
  \<open>setup_components_eq\<close> below show that the code appends exactly these.\<close>

definition fluxLine_sites :: "site list" where
  "fluxLine_sites = [S_topStraightFLine, S_bottomStraightFLine, S_bottomRightFLine]"

definition fluxLine_objects :: "store_entry list" where
  "fluxLine_objects =
     [AssemblyObject FourQubitCurveFluxLine ''TopStraightFluxLine'' ''GroundPlane_log'',
      AssemblyObject FourQubitCurveFluxLine ''BottomStraightFluxLine'' ''GroundPlane_log'',
      AssemblyObject FourQubitCurveFluxLine ''bottomRightFluxLine'' ''GroundPlane_log'']"

definition qubit_element_sites :: "site list" where
  "qubit_element_sites =
     [S_topTransmon, S_bottomTransmon, S_topXmon, S_bottomXmon,
      S_topResonator0, S_topResonator1, S_bottomResonator0, S_bottomResonator1,
      S_bottomStraight1, S_bottomCurve1]"

definition qubit_element_objects :: "store_entry list" where
  "qubit_element_objects =
     [AssemblyObject FourQubitTransmon ''Transmon'' ''GroundPlane_log'',
      AssemblyObject FourQubitTransmon ''Transmon'' ''GroundPlane_log'',
      AssemblyObject FourQubitXmon ''Xmon'' ''GroundPlane_log'',
      AssemblyObject FourQubitXmon ''Xmon'' ''GroundPlane_log'',
      AssemblyObject FourQubitResonator ''Resonator0'' ''GroundPlane_log'',
      AssemblyObject FourQubitResonator ''Resonator1'' ''GroundPlane_log'',
      AssemblyObject FourQubitResonator ''Resonator0'' ''GroundPlane_log'',
      AssemblyObject FourQubitResonator ''Resonator1'' ''GroundPlane_log'',
      AssemblyObject FourQubitCurve ''Curve1'' ''GroundPlane_log'',
      AssemblyObject FourQubitStraight ''Straight1'' ''GroundPlane_log'',
      AssemblyObject FourQubitCurve ''Curve2'' ''GroundPlane_log'',
      AssemblyObject FourQubitStraight ''Straight2'' ''GroundPlane_log'',
      AssemblyObject FourQubitCurve ''Curve3'' ''GroundPlane_log'',
      AssemblyObject FourQubitStraight ''Straight3'' ''GroundPlane_log'']"

definition resonatorAssembly_object :: "nat \<Rightarrow> store_entry" where
  "resonatorAssembly_object iR =
     AssemblyObject FourQubitResonatorAssembly (''ResonatorAssembly_'' @ sprintf_d iR)
       ''GroundPlane_log''"

definition groundPlane_sites :: "parameters \<Rightarrow> site list" where
  "groundPlane_sites env =
     (if dp_useTransmissionLine env then [S_tLine] else []) @
     (if dp_useResonatorAssembly env then map S_resonatorAssembly [0..<6] else []) @
     (if dp_useFluxLines env then fluxLine_sites else []) @
     qubit_element_sites"

definition groundPlane_objects :: "parameters \<Rightarrow> store_entry list" where
  "groundPlane_objects env =
     (if dp_useTransmissionLine env
      then [AssemblyObject FourQubitTransmissionLine ''TransmissionLine'' ''GroundPlane_log'']
      else []) @
     (if dp_useResonatorAssembly env then map resonatorAssembly_object [0..<6] else []) @
     (if dp_useFluxLines env then fluxLine_objects else []) @
     qubit_element_objects"

definition site_surfaces ::
  "parameters \<Rightarrow> phys_vol \<Rightarrow> nat option \<Rightarrow> nat option \<Rightarrow> site list \<Rightarrow> border_surface list" where
  "site_surfaces env chip vac nb sites =
     concat (map (\<lambda>st. list_surfaces chip vac nb
                    (GetListOfAllFundamentalSubVolumes (constructed env st))) sites)"

definition generation_volumes :: "parameters \<Rightarrow> state \<Rightarrow> store_entry list" where
  "generation_volumes env s =
     [PVPlacement (phys_world s), PVPlacement (phys_siliconChip s)] @
     (if dp_useQubitHousing env
      then [AssemblyObject FourQubitQubitHousing ''QubitHousing'' ''World''] else []) @
     (if dp_useGroundPlane env
      then PVPlacement (phys_groundPlane s) # groundPlane_objects env else [])"

definition generation_surfaces :: "parameters \<Rightarrow> state \<Rightarrow> border_surface list" where
  "generation_surfaces env s =
     [\<lparr>bs_name = ''border_siliconChip_world'', bs_vol1 = phys_siliconChip s,
       bs_vol2 = phys_world s, bs_property = fSiVacuumInterface s\<rparr>] @
     (if dp_useQubitHousing env
      then [\<lparr>bs_name = ''border_siliconChip_qubitHousing'', bs_vol1 = phys_siliconChip s,
             bs_vol2 = GetPhysicalVolume (constructed env S_qubitHousing),
             bs_property = fSiCopperInterface s\<rparr>] else []) @
     (if dp_useGroundPlane env
      then \<lparr>bs_name = ''border_siliconChip_groundPlane'', bs_vol1 = phys_siliconChip s,
            bs_vol2 = phys_groundPlane s, bs_property = fSiNbInterface s\<rparr> #
           site_surfaces env (phys_siliconChip s) (fSiVacuumInterface s) (fSiNbInterface s)
             (groundPlane_sites env)
      else [])"

text \<open>The three surface properties as the first build leaves them.\<close>

definition scattering_added :: "parameters \<Rightarrow> surface_property \<Rightarrow> surface_property" where
  "scattering_added env =
     AddScatteringProperties 520 350 [0, 0, 0, 0, 0, 0] [1, 0, 0, 0, 0, 0] [0, 0, 0, 0, 0, 0]
       (1000000000 * hertz env) (1000000000 * hertz env) (1000000000 * hertz env)"

definition SiNbInterface_object :: "parameters \<Rightarrow> surface_property" where
  "SiNbInterface_object env =
     sensor_model env (scattering_added env
       (property_object ''SiNbInterface'' [1.0, 0.0, 0.0, 0.0, 0.1, 1.0, 0.0, 0.0]))"

definition SiCopperInterface_object :: "parameters \<Rightarrow> surface_property" where
  "SiCopperInterface_object env =
     scattering_added env
       (property_object ''SiCopperInterface'' [1.0, 0.0, 0.0, 0.0, 1.0, 0.0, 0.0, 0.0])"

definition SiVacuumInterface_object :: "parameters \<Rightarrow> surface_property" where
  "SiVacuumInterface_object env =
     scattering_added env
       (property_object ''SiVacuumInterface'' [0.0, 1.0, 0.0, 0.0, 0.0, 1.0, 0.0, 0.0])"

text \<open>The state in which \<^verbatim>\<open>SetupGeometry\<close> starts to place volumes during a call of
  \<^verbatim>\<open>Construct\<close>: after the clean-up on a rebuild, after \<^verbatim>\<open>DefineMaterials\<close>, and
  after the block of the surface properties on a first build.\<close>

definition prepared :: "parameters \<Rightarrow> state \<Rightarrow> state" where
  "prepared env s =
     (if fConstructed s then DefineMaterials (clean_previous_generation s)
      else define_surface_properties env (DefineMaterials s))"

subsection \<open>Concrete parameters\<close>

text \<open>Parameters to run the functions on: the ground plane alone is switched on, every
  sub-assembly has an empty list of sub-volumes, the units have their CLHEP values.
  The examples below switch toggles on and give single sites a list.\<close>

definition example_volume :: "string \<Rightarrow> phys_vol" where
  "example_volume n =
     \<lparr>pv_name = n, lv_name = n @ ''_log'', lv_material = None,
      mother_lv = Some ''GroundPlane_log''\<rparr>"

definition empty_assembly :: assembly where
  "empty_assembly =
     \<lparr>GetPhysicalVolume = example_volume ''Assembly'',
      GetListOfAllFundamentalSubVolumes = []\<rparr>"

definition leaf_assembly :: "string \<Rightarrow> (string \<times> string) list \<Rightarrow> assembly" where
  "leaf_assembly pName leaves =
     \<lparr>GetPhysicalVolume = example_volume pName,
      GetListOfAllFundamentalSubVolumes =
        map (\<lambda>(material, name). (material, name, example_volume name)) leaves\<rparr>"

definition example_parameters :: parameters where
  "example_parameters =
     \<lparr>dp_useQubitHousing = False, dp_useGroundPlane = True,
      dp_useTransmissionLine = False, dp_useResonatorAssembly = False,
      dp_useFluxLines = False,
      constructed = (\<lambda>st. empty_assembly),
      hertz = 1 / 1000000000, CLHEP_nm = 1 / 1000000, CLHEP_eV = 1 / 1000000,
      CLHEP_ps = 1 / 1000, CLHEP_km = 1000000, CLHEP_s = 1000000000\<rparr>"

subsection \<open>Reading the registries\<close>

text \<open>The registries hold nothing that survives into the next generation: the table of
  border surfaces is empty or will be cleaned (a rebuild), and the volume store is empty
  or will be cleaned (a rebuild whose geometry the run manager has not destroyed). This
  is the case in a fresh process and at every rebuild that follows the run manager's
  protocol.\<close>

definition starts_clean :: "state \<Rightarrow> bool" where
  "starts_clean s \<longleftrightarrow>
     (fConstructed s \<or> surfaceTable s = []) \<and>
     (fConstructed s \<and> \<not> geometryHasBeenDestroyed s \<or> volumeStore s = [])"

fun is_of_class :: "asm_class \<Rightarrow> store_entry \<Rightarrow> bool" where
  "is_of_class c (AssemblyObject c' pName mother) = (c = c')"
| "is_of_class c (PVPlacement pv) = False"

definition objects_of_class :: "asm_class \<Rightarrow> store_entry list \<Rightarrow> store_entry list" where
  "objects_of_class c store = filter (is_of_class c) store"

subsection \<open>Concrete builds\<close>

text \<open>The example parameters with a list of sub-volumes at single sites.\<close>

definition tLine_parameters :: "(string \<times> string) list \<Rightarrow> parameters" where
  "tLine_parameters leaves =
     example_parameters
       \<lparr>dp_useTransmissionLine := True,
        constructed := (\<lambda>st. empty_assembly)
          (S_tLine := leaf_assembly ''TransmissionLine'' leaves)\<rparr>"

definition transmon_parameters :: parameters where
  "transmon_parameters =
     example_parameters
       \<lparr>constructed := (\<lambda>st. empty_assembly)
          (S_topTransmon := leaf_assembly ''Transmon'' [(''Niobium'', ''Transmon_conductor'')],
           S_bottomTransmon := leaf_assembly ''Transmon'' [(''Niobium'', ''Transmon_conductor'')])\<rparr>"

definition fluxLine_parameters :: parameters where
  "fluxLine_parameters =
     example_parameters
       \<lparr>dp_useFluxLines := True,
        constructed := (\<lambda>st. empty_assembly)
          (S_bottomRightFLine := leaf_assembly ''bottomRightFluxLine''
             [(''Niobium'', ''bottomRightFluxLine_conductor''),
              (''Vacuum'', ''bottomRightFluxLine_empty'')])\<rparr>"

definition chain_parameters :: parameters where
  "chain_parameters =
     example_parameters
       \<lparr>constructed := (\<lambda>st. empty_assembly)
          (S_bottomCurve1 := leaf_assembly ''Curve1''
             [(''Niobium'', ''Curve1_conductor''), (''Vacuum'', ''Curve1_empty'')],
           S_bottomCurve2 := leaf_assembly ''Curve2''
             [(''Niobium'', ''Curve2_conductor''), (''Vacuum'', ''Curve2_empty'')])\<rparr>"

section \<open>What one call of SetupGeometry adds\<close>

text \<open>Each block of \<^verbatim>\<open>SetupGeometry\<close> appends to the volume store and to the table of
  border surfaces and leaves the pointers to the surface properties as they are. The
  lemmas of this section compute what is appended, block by block.\<close>

lemma border_loop_eq:
  "border_loop chip ls s =
     s\<lparr>surfaceTable := surfaceTable s @
        list_surfaces chip (fSiVacuumInterface s) (fSiNbInterface s) ls\<rparr>"
  by (induction ls arbitrary: s)
     (auto simp: list_surfaces_def new_G4CMPLogicalBorderSurface_def Let_def)

lemma construct_and_border_eq:
  "construct_and_border env chip cls pName st s =
     s\<lparr>volumeStore := volumeStore s @ [AssemblyObject cls pName ''GroundPlane_log''],
       surfaceTable := surfaceTable s @
         site_surfaces env chip (fSiVacuumInterface s) (fSiNbInterface s) [st]\<rparr>"
  by (simp add: construct_and_border_def border_loop_eq new_assembly_def site_surfaces_def)

lemma site_surfaces_append:
  "site_surfaces env chip vac nb (xs @ ys) =
     site_surfaces env chip vac nb xs @ site_surfaces env chip vac nb ys"
  by (simp add: site_surfaces_def)

lemma site_surfaces_Cons:
  "site_surfaces env chip vac nb (x # xs) =
     site_surfaces env chip vac nb [x] @ site_surfaces env chip vac nb xs"
  by (simp add: site_surfaces_def)

lemma site_surfaces_Nil: "site_surfaces env chip vac nb [] = []"
  by (simp add: site_surfaces_def)

lemma setup_resonatorAssembly_eq:
  "setup_resonatorAssembly env chip iR s =
     s\<lparr>volumeStore := volumeStore s @ [resonatorAssembly_object iR],
       surfaceTable := surfaceTable s @
         site_surfaces env chip (fSiVacuumInterface s) (fSiNbInterface s)
           [S_resonatorAssembly iR]\<rparr>"
  by (simp add: setup_resonatorAssembly_def construct_and_border_eq resonatorAssembly_object_def)

lemma fold_resonator_eq:
  "fold (setup_resonatorAssembly env chip) xs s =
     s\<lparr>volumeStore := volumeStore s @ map resonatorAssembly_object xs,
       surfaceTable := surfaceTable s @
         site_surfaces env chip (fSiVacuumInterface s) (fSiNbInterface s)
           (map S_resonatorAssembly xs)\<rparr>"
proof (induction xs arbitrary: s)
  case Nil
  show ?case by (simp add: site_surfaces_Nil)
next
  case (Cons x xs)
  have "fold (setup_resonatorAssembly env chip) (x # xs) s =
          fold (setup_resonatorAssembly env chip) xs (setup_resonatorAssembly env chip x s)"
    by (simp only: fold_simps comp_apply)
  also have "\<dots> = (setup_resonatorAssembly env chip x s)
      \<lparr>volumeStore := volumeStore (setup_resonatorAssembly env chip x s) @
          map resonatorAssembly_object xs,
        surfaceTable := surfaceTable (setup_resonatorAssembly env chip x s) @
          site_surfaces env chip (fSiVacuumInterface (setup_resonatorAssembly env chip x s))
            (fSiNbInterface (setup_resonatorAssembly env chip x s))
            (map S_resonatorAssembly xs)\<rparr>"
    by (rule Cons.IH)
  also have "\<dots> = s\<lparr>volumeStore := volumeStore s @ map resonatorAssembly_object (x # xs),
       surfaceTable := surfaceTable s @
         site_surfaces env chip (fSiVacuumInterface s) (fSiNbInterface s)
           (map S_resonatorAssembly (x # xs))\<rparr>"
    by (simp add: setup_resonatorAssembly_eq
          site_surfaces_Cons [of _ _ _ _ _ "map S_resonatorAssembly xs"])
  finally show ?case .
qed

lemma setup_fluxLines_eq:
  "setup_fluxLines env chip s =
     s\<lparr>volumeStore := volumeStore s @ fluxLine_objects,
       surfaceTable := surfaceTable s @
         site_surfaces env chip (fSiVacuumInterface s) (fSiNbInterface s) fluxLine_sites\<rparr>"
  by (simp add: setup_fluxLines_def construct_and_border_eq fluxLine_objects_def
        fluxLine_sites_def site_surfaces_def)

lemma setup_qubit_elements_eq:
  "setup_qubit_elements env chip s =
     s\<lparr>volumeStore := volumeStore s @ qubit_element_objects,
       surfaceTable := surfaceTable s @
         site_surfaces env chip (fSiVacuumInterface s) (fSiNbInterface s) qubit_element_sites\<rparr>"
  by (simp add: setup_qubit_elements_def construct_and_border_eq border_loop_eq
        new_assembly_def qubit_element_objects_def qubit_element_sites_def site_surfaces_def
        Let_def cong: let_weak_cong)

lemma opt_transmissionLine_eq:
  "(if c then setup_transmissionLine env chip s else s) =
     s\<lparr>volumeStore := volumeStore s @
         (if c then [AssemblyObject FourQubitTransmissionLine ''TransmissionLine''
                      ''GroundPlane_log''] else []),
       surfaceTable := surfaceTable s @
         site_surfaces env chip (fSiVacuumInterface s) (fSiNbInterface s)
           (if c then [S_tLine] else [])\<rparr>"
  by (simp add: setup_transmissionLine_def construct_and_border_eq site_surfaces_Nil)

lemma opt_resonatorAssembly_eq:
  "(if c then fold (setup_resonatorAssembly env chip) xs s else s) =
     s\<lparr>volumeStore := volumeStore s @ (if c then map resonatorAssembly_object xs else []),
       surfaceTable := surfaceTable s @
         site_surfaces env chip (fSiVacuumInterface s) (fSiNbInterface s)
           (if c then map S_resonatorAssembly xs else [])\<rparr>"
  by (simp add: fold_resonator_eq site_surfaces_Nil)

lemma opt_fluxLines_eq:
  "(if c then setup_fluxLines env chip s else s) =
     s\<lparr>volumeStore := volumeStore s @ (if c then fluxLine_objects else []),
       surfaceTable := surfaceTable s @
         site_surfaces env chip (fSiVacuumInterface s) (fSiNbInterface s)
           (if c then fluxLine_sites else [])\<rparr>"
  by (simp add: setup_fluxLines_eq site_surfaces_Nil)

lemma setup_groundPlane_eq:
  "setup_groundPlane env chip s =
     s\<lparr>volumeStore := volumeStore s @ PVPlacement (phys_groundPlane s) # groundPlane_objects env,
       surfaceTable := surfaceTable s @
         \<lparr>bs_name = ''border_siliconChip_groundPlane'', bs_vol1 = chip,
          bs_vol2 = phys_groundPlane s, bs_property = fSiNbInterface s\<rparr> #
         site_surfaces env chip (fSiVacuumInterface s) (fSiNbInterface s)
           (groundPlane_sites env)\<rparr>"
  by (simp add: setup_groundPlane_def opt_transmissionLine_eq opt_resonatorAssembly_eq
        opt_fluxLines_eq setup_qubit_elements_eq
        new_G4PVPlacement_def new_G4CMPLogicalBorderSurface_def phys_groundPlane_def
        groundPlane_objects_def groundPlane_sites_def site_surfaces_append Let_def
        split del: if_split cong: let_weak_cong)

lemma opt_qubitHousing_eq:
  "(if c then setup_qubitHousing env chip s else s) =
     s\<lparr>volumeStore := volumeStore s @
         (if c then [AssemblyObject FourQubitQubitHousing ''QubitHousing'' ''World''] else []),
       surfaceTable := surfaceTable s @
         (if c then [\<lparr>bs_name = ''border_siliconChip_qubitHousing'', bs_vol1 = chip,
             bs_vol2 = GetPhysicalVolume (constructed env S_qubitHousing),
             bs_property = fSiCopperInterface s\<rparr>] else [])\<rparr>"
  by (simp add: setup_qubitHousing_def new_assembly_def new_G4CMPLogicalBorderSurface_def
        Let_def cong: let_weak_cong)

lemma opt_groundPlane_eq:
  "(if c then setup_groundPlane env chip s else s) =
     s\<lparr>volumeStore := volumeStore s @
         (if c then PVPlacement (phys_groundPlane s) # groundPlane_objects env else []),
       surfaceTable := surfaceTable s @
         (if c then \<lparr>bs_name = ''border_siliconChip_groundPlane'', bs_vol1 = chip,
            bs_vol2 = phys_groundPlane s, bs_property = fSiNbInterface s\<rparr> #
           site_surfaces env chip (fSiVacuumInterface s) (fSiNbInterface s)
             (groundPlane_sites env) else [])\<rparr>"
  by (simp add: setup_groundPlane_eq)

lemma setup_components_eq:
  "setup_components env s =
     s\<lparr>fWorldPhys := Some (phys_world s),
       fSuperconductorSensitivity :=
         Some (case fSuperconductorSensitivity s of None \<Rightarrow> ''PhononElectrode'' | Some d \<Rightarrow> d),
       volumeStore := volumeStore s @ generation_volumes env s,
       latticeTable := latticeTable s @
         [(phys_siliconChip s, \<lparr>lat_name = ''Si'', lat_miller = (1, 0, 0)\<rparr>)],
       surfaceTable := surfaceTable s @ generation_surfaces env s,
       sdManager := List.insert
         (case fSuperconductorSensitivity s of None \<Rightarrow> ''PhononElectrode'' | Some d \<Rightarrow> d)
         (sdManager s),
       siliconChipSD :=
         Some (case fSuperconductorSensitivity s of None \<Rightarrow> ''PhononElectrode'' | Some d \<Rightarrow> d)\<rparr>"
  by (simp add: setup_components_def opt_groundPlane_eq opt_qubitHousing_eq
        setup_sensitivity_def
        new_G4PVPlacement_def new_G4CMPLogicalBorderSurface_def
        phys_world_def phys_siliconChip_def phys_groundPlane_def
        generation_volumes_def generation_surfaces_def Let_def
        split del: if_split cong: let_weak_cong cong del: if_weak_cong)

lemma define_surface_properties_eq:
  "define_surface_properties env s =
     s\<lparr>fSiNbInterface := Some (length (surfaceProperties s)),
       fSiCopperInterface := Some (Suc (length (surfaceProperties s))),
       fSiVacuumInterface := Some (Suc (Suc (length (surfaceProperties s)))),
       surfaceProperties := surfaceProperties s @
         [SiNbInterface_object env, SiCopperInterface_object env,
          SiVacuumInterface_object env]\<rparr>"
  by (simp add: define_surface_properties_def new_G4CMPSurfaceProperty_def on_property_def
        AttachPhononSensor_def SiNbInterface_object_def SiCopperInterface_object_def
        SiVacuumInterface_object_def scattering_added_def nth_append list_update_append
        Let_def cong: let_weak_cong)

section \<open>What one call of Construct leaves behind\<close>

lemma Construct_eq:
  "Construct env s =
     (Some (phys_world (prepared env s)),
      (setup_components env (prepared env s))\<lparr>fConstructed := True\<rparr>)"
  by (simp add: Construct_def SetupGeometry_def prepared_def setup_components_eq
        define_surface_properties_eq DefineMaterials_def clean_previous_generation_def
        Let_def cong: let_weak_cong)

lemma prepared_materials:
  "fLiquidHelium (prepared env s) = Some ''G4_AIR''"
  "fSilicon (prepared env s) = Some ''G4_Si''"
  "fNiobium (prepared env s) = Some ''G4_Nb''"
  by (simp_all add: prepared_def define_surface_properties_eq DefineMaterials_def
        clean_previous_generation_def Let_def)

lemma prepared_registries:
  "surfaceTable (prepared env s) = (if fConstructed s then [] else surfaceTable s)"
  "latticeTable (prepared env s) = (if fConstructed s then [] else latticeTable s)"
  "volumeStore (prepared env s) =
     (if fConstructed s \<and> \<not> geometryHasBeenDestroyed s then [] else volumeStore s)"
  by (simp_all add: prepared_def define_surface_properties_eq DefineMaterials_def
        clean_previous_generation_def Let_def)

lemma prepared_pointers:
  "fSiNbInterface (prepared env s) =
     (if fConstructed s then fSiNbInterface s else Some (length (surfaceProperties s)))"
  "fSiCopperInterface (prepared env s) =
     (if fConstructed s then fSiCopperInterface s else Some (Suc (length (surfaceProperties s))))"
  "fSiVacuumInterface (prepared env s) =
     (if fConstructed s then fSiVacuumInterface s
      else Some (Suc (Suc (length (surfaceProperties s)))))"
  by (simp_all add: prepared_def define_surface_properties_eq DefineMaterials_def
        clean_previous_generation_def Let_def)

lemma prepared_surfaceProperties:
  "surfaceProperties (prepared env s) =
     (if fConstructed s then surfaceProperties s
      else surfaceProperties s @
        [SiNbInterface_object env, SiCopperInterface_object env, SiVacuumInterface_object env])"
  by (simp add: prepared_def define_surface_properties_eq DefineMaterials_def
        clean_previous_generation_def Let_def)

lemma generation_cong:
  assumes "fLiquidHelium a = fLiquidHelium b" "fSilicon a = fSilicon b"
    "fNiobium a = fNiobium b" "fSiNbInterface a = fSiNbInterface b"
    "fSiCopperInterface a = fSiCopperInterface b"
    "fSiVacuumInterface a = fSiVacuumInterface b"
  shows "generation_surfaces env a = generation_surfaces env b"
    and "generation_volumes env a = generation_volumes env b"
  using assms
  by (simp_all add: generation_surfaces_def generation_volumes_def phys_world_def
        phys_siliconChip_def phys_groundPlane_def)

lemma built_fields:
  "fConstructed (snd (Construct env s))"
  "fLiquidHelium (snd (Construct env s)) = Some ''G4_AIR''"
  "fSilicon (snd (Construct env s)) = Some ''G4_Si''"
  "fNiobium (snd (Construct env s)) = Some ''G4_Nb''"
  "fSiNbInterface (snd (Construct env s)) = fSiNbInterface (prepared env s)"
  "fSiCopperInterface (snd (Construct env s)) = fSiCopperInterface (prepared env s)"
  "fSiVacuumInterface (snd (Construct env s)) = fSiVacuumInterface (prepared env s)"
  "surfaceProperties (snd (Construct env s)) = surfaceProperties (prepared env s)"
  "geometryHasBeenDestroyed (snd (Construct env s)) = geometryHasBeenDestroyed s"
  by (simp_all add: Construct_eq setup_components_eq prepared_materials)
     (simp add: prepared_def define_surface_properties_eq DefineMaterials_def
        clean_previous_generation_def Let_def)

lemma built_generation:
  "generation_surfaces env (snd (Construct env s)) = generation_surfaces env (prepared env s)"
  "generation_volumes env (snd (Construct env s)) = generation_volumes env (prepared env s)"
  by (rule generation_cong; simp add: built_fields prepared_materials)+

lemma built_registries:
  "surfaceTable (snd (Construct env s)) =
     (if fConstructed s then [] else surfaceTable s) @
     generation_surfaces env (snd (Construct env s))"
  "volumeStore (snd (Construct env s)) =
     (if fConstructed s \<and> \<not> geometryHasBeenDestroyed s then [] else volumeStore s) @
     generation_volumes env (snd (Construct env s))"
  "latticeTable (snd (Construct env s)) =
     (if fConstructed s then [] else latticeTable s) @
     [(phys_siliconChip (snd (Construct env s)),
       \<lparr>lat_name = ''Si'', lat_miller = (1, 0, 0)\<rparr>)]"
    "fst (Construct env s) = Some (phys_world (snd (Construct env s)))"
  unfolding built_generation
  by (simp_all add: Construct_eq setup_components_eq prepared_registries prepared_materials
        phys_siliconChip_def phys_world_def)

lemma built_clean:
  assumes "starts_clean s"
  shows "surfaceTable (snd (Construct env s)) = generation_surfaces env (snd (Construct env s))"
    and "volumeStore (snd (Construct env s)) = generation_volumes env (snd (Construct env s))"
  using assms by (auto simp: built_registries starts_clean_def)

lemma built_volumes:
  "phys_world (snd (Construct env s)) =
     \<lparr>pv_name = ''World'', lv_name = ''World'', lv_material = Some ''G4_AIR'',
      mother_lv = None\<rparr>"
  "phys_siliconChip (snd (Construct env s)) =
     \<lparr>pv_name = ''SiliconChip'', lv_name = ''SiliconChip_log'',
      lv_material = Some ''G4_Si'', mother_lv = Some ''World''\<rparr>"
  "phys_groundPlane (snd (Construct env s)) =
     \<lparr>pv_name = ''GroundPlane'', lv_name = ''GroundPlane_log'',
      lv_material = Some ''G4_Nb'', mother_lv = Some ''World''\<rparr>"
  by (simp_all add: phys_world_def phys_siliconChip_def phys_groundPlane_def built_fields)

lemma toggles_inert:
  assumes "\<not> dp_useGroundPlane env"
  shows "Construct (env\<lparr>dp_useTransmissionLine := t, dp_useResonatorAssembly := r,
                         dp_useFluxLines := f\<rparr>) s = Construct env s"
  using assms
  by (simp add: Construct_eq setup_components_eq generation_volumes_def
        generation_surfaces_def prepared_def define_surface_properties_eq
        SiNbInterface_object_def SiCopperInterface_object_def SiVacuumInterface_object_def
        scattering_added_def sensor_model_def)

lemma objects_of_class_simps:
  "objects_of_class c [] = []"
  "objects_of_class c (xs @ ys) = objects_of_class c xs @ objects_of_class c ys"
  "objects_of_class c (PVPlacement pv # xs) = objects_of_class c xs"
  "objects_of_class c (AssemblyObject c' n m # xs) =
     (if c = c' then AssemblyObject c' n m # objects_of_class c xs else objects_of_class c xs)"
  "objects_of_class c (map resonatorAssembly_object ns) =
     (if c = FourQubitResonatorAssembly then map resonatorAssembly_object ns else [])"
  by (simp_all add: objects_of_class_def resonatorAssembly_object_def filter_map comp_def)

lemma objects_of_class_fixed:
  "objects_of_class FourQubitCurveFluxLine qubit_element_objects = []"
  "objects_of_class FourQubitTransmissionLine qubit_element_objects = []"
  "objects_of_class FourQubitResonatorAssembly qubit_element_objects = []"
  "objects_of_class FourQubitQubitHousing qubit_element_objects = []"
  "objects_of_class FourQubitCurveFluxLine fluxLine_objects = fluxLine_objects"
  "objects_of_class FourQubitTransmon qubit_element_objects =
     [AssemblyObject FourQubitTransmon ''Transmon'' ''GroundPlane_log'',
      AssemblyObject FourQubitTransmon ''Transmon'' ''GroundPlane_log'']"
  "objects_of_class FourQubitXmon qubit_element_objects =
     [AssemblyObject FourQubitXmon ''Xmon'' ''GroundPlane_log'',
      AssemblyObject FourQubitXmon ''Xmon'' ''GroundPlane_log'']"
  by (simp_all add: objects_of_class_def qubit_element_objects_def fluxLine_objects_def)

lemma initial_clean: "starts_clean initial_state"
  by (simp add: starts_clean_def initial_state_def)

lemma initial_pointers:
  "fSiNbInterface (snd (Construct env initial_state)) = Some 0"
  "fSiCopperInterface (snd (Construct env initial_state)) = Some 1"
  "fSiVacuumInterface (snd (Construct env initial_state)) = Some 2"
  by (simp_all add: built_fields prepared_pointers initial_state_def)

lemmas example_defs = example_parameters_def tLine_parameters_def transmon_parameters_def
  fluxLine_parameters_def chain_parameters_def leaf_assembly_def empty_assembly_def

lemmas generation_defs = generation_surfaces_def generation_volumes_def groundPlane_sites_def
  groundPlane_objects_def qubit_element_sites_def fluxLine_sites_def site_surfaces_def
  list_surfaces_def

lemma site_surfaces_origin:
  assumes "b \<in> set (site_surfaces env chip vac nb sites)"
  shows "bs_vol1 b = chip \<and>
         (\<exists>st \<in> set sites. \<exists>(material, name, vol) \<in>
              set (GetListOfAllFundamentalSubVolumes (constructed env st)).
            bs_name b = ''border_siliconChip_'' @ name \<and> bs_vol2 b = vol)"
  using assms
  by (fastforce simp: site_surfaces_def list_surfaces_def split: if_splits)

lemma rebuild_generation:
  assumes "fConstructed s" and "fLiquidHelium s = Some ''G4_AIR''"
    and "fSilicon s = Some ''G4_Si''" and "fNiobium s = Some ''G4_Nb''"
  shows "generation_surfaces env (snd (Construct env s)) = generation_surfaces env s"
    and "generation_volumes env (snd (Construct env s)) = generation_volumes env s"
    and "phys_siliconChip (snd (Construct env s)) = phys_siliconChip s"
  using assms
  by (auto intro!: generation_cong simp: built_fields prepared_pointers phys_siliconChip_def)

text \<open>The lists of the second and third curve and of the second and third straight of
  the chain are never read: whatever they hold, \<^verbatim>\<open>Construct\<close> gives the same result.\<close>

lemma site_surfaces_update:
  assumes "st \<notin> set sites"
  shows "site_surfaces (env\<lparr>constructed := (constructed env)(st := a)\<rparr>) chip vac nb sites =
         site_surfaces env chip vac nb sites"
  using assms by (induction sites) (auto simp: site_surfaces_def)

lemma generation_update:
  assumes "st \<notin> set (groundPlane_sites env)" and "st \<noteq> S_qubitHousing"
  shows "generation_surfaces (env\<lparr>constructed := (constructed env)(st := a)\<rparr>) s =
         generation_surfaces env s"
    and "generation_volumes (env\<lparr>constructed := (constructed env)(st := a)\<rparr>) s =
         generation_volumes env s"
proof -
  have sites: "groundPlane_sites (env\<lparr>constructed := (constructed env)(st := a)\<rparr>) =
      groundPlane_sites env"
    by (simp add: groundPlane_sites_def)
  show "generation_surfaces (env\<lparr>constructed := (constructed env)(st := a)\<rparr>) s =
         generation_surfaces env s"
    using assms by (simp add: generation_surfaces_def sites site_surfaces_update)
  show "generation_volumes (env\<lparr>constructed := (constructed env)(st := a)\<rparr>) s =
         generation_volumes env s"
    by (simp add: generation_volumes_def groundPlane_objects_def)
qed

lemma prepared_update:
  "prepared (env\<lparr>constructed := f\<rparr>) s = prepared env s"
  by (simp add: prepared_def define_surface_properties_eq
        SiNbInterface_object_def SiCopperInterface_object_def SiVacuumInterface_object_def
        scattering_added_def sensor_model_def)

lemma chain_lists_never_read:
  assumes "st \<in> {S_bottomCurve2, S_bottomStraight2, S_bottomCurve3, S_bottomStraight3}"
  shows "Construct (env\<lparr>constructed := (constructed env)(st := a)\<rparr>) s = Construct env s"
proof -
  have "st \<notin> set (groundPlane_sites env)" and "st \<noteq> S_qubitHousing"
    using assms
    by (auto simp: groundPlane_sites_def qubit_element_sites_def fluxLine_sites_def)
  then show ?thesis
    by (simp add: Construct_eq setup_components_eq prepared_update generation_update)
qed

section \<open>The sensor model\<close>

lemma sensor_model_idem: "sensor_model env (sensor_model env sp) = sensor_model env sp"
  by (simp add: sensor_model_def AddConstProperty_def SetPhononElectrode_def Let_def
        fun_eq_iff)

lemma sensor_model_fields:
  "sp_phononElectrode (sensor_model env sp) = Some G4CMPPhononElectrode"
  "map (sp_phononProperties (sensor_model env sp))
     [''filmAbsorption'', ''filmThickness'', ''gapEnergy'', ''lowQPLimit'',
      ''phononLifetime'', ''phononLifetimeSlope'', ''vSound'', ''subgapAbsorption''] =
     [Some 0, Some (90 * CLHEP_nm env), Some (0.0016 * CLHEP_eV env), Some 3,
      Some (4.17 * CLHEP_ps env), Some 0.29, Some (3.480 * CLHEP_km env / CLHEP_s env),
      Some 0]"
  "sp_name (sensor_model env sp) = sp_name sp"
  "sp_coefficients (sensor_model env sp) = sp_coefficients sp"
  "sp_scattering (sensor_model env sp) = sp_scattering sp"
  by (simp_all add: sensor_model_def AddConstProperty_def SetPhononElectrode_def Let_def)

section \<open>The surface properties over repeated builds\<close>

lemma rebuild_keeps_properties:
  assumes "fConstructed s"
  shows "surfaceProperties (snd (Construct env s)) = surfaceProperties s"
    and "fSiNbInterface (snd (Construct env s)) = fSiNbInterface s"
    and "fSiCopperInterface (snd (Construct env s)) = fSiCopperInterface s"
    and "fSiVacuumInterface (snd (Construct env s)) = fSiVacuumInterface s"
  using assms by (simp_all add: built_fields prepared_pointers prepared_surfaceProperties)

lemma repeated_builds:
  "fConstructed (((\<lambda>s. snd (Construct env s)) ^^ Suc n) s)
   \<and> surfaceProperties (((\<lambda>s. snd (Construct env s)) ^^ Suc n) s) =
       surfaceProperties (snd (Construct env s))
   \<and> fSiNbInterface (((\<lambda>s. snd (Construct env s)) ^^ Suc n) s) =
       fSiNbInterface (snd (Construct env s))
   \<and> fSiCopperInterface (((\<lambda>s. snd (Construct env s)) ^^ Suc n) s) =
       fSiCopperInterface (snd (Construct env s))
   \<and> fSiVacuumInterface (((\<lambda>s. snd (Construct env s)) ^^ Suc n) s) =
       fSiVacuumInterface (snd (Construct env s))"
proof (induction n)
  case 0
  show ?case by (simp add: built_fields(1))
next
  case (Suc n)
  then show ?case by (simp add: built_fields(1) rebuild_keeps_properties)
qed

lemma property_objects:
  "map sp_name [SiNbInterface_object env, SiCopperInterface_object env,
      SiVacuumInterface_object env] =
     [''SiNbInterface'', ''SiCopperInterface'', ''SiVacuumInterface'']"
  "map sp_phononElectrode [SiNbInterface_object env, SiCopperInterface_object env,
      SiVacuumInterface_object env] = [Some G4CMPPhononElectrode, None, None]"
  "map sp_scattering [SiNbInterface_object env, SiCopperInterface_object env,
      SiVacuumInterface_object env] =
     replicate 3 (Some \<lparr>sc_anhCutoff = 520, sc_reflCutoff = 350,
       sc_anhCoeffs = [0, 0, 0, 0, 0, 0], sc_diffCoeffs = [1, 0, 0, 0, 0, 0],
       sc_specCoeffs = [0, 0, 0, 0, 0, 0],
       sc_anhFreqUnits = 1000000000 * hertz env, sc_diffFreqUnits = 1000000000 * hertz env,
       sc_specFreqUnits = 1000000000 * hertz env\<rparr>)"
  by (simp_all add: SiNbInterface_object_def SiCopperInterface_object_def
        SiVacuumInterface_object_def sensor_model_fields scattering_added_def
        AddScatteringProperties_def property_object_def numeral_eq_Suc)

section \<open>The claims\<close>

subsection \<open>C1: a sub-volume that neither rule recognises\<close>

text \<open>
  C1, as the code has it. A sub-volume whose material contains neither \<^verbatim>\<open>"Vacuum"\<close> nor
  \<^verbatim>\<open>"Niobium"\<close> gets no border surface, and the loop goes on with the sub-volumes
  that follow: the result is the one of the list without that sub-volume. Nothing is
  reported; the functions have no failing outcome.
\<close>

theorem unrecognized_leaf_is_skipped:
  assumes "str_find material ''Vacuum'' = None" and "str_find material ''Niobium'' = None"
  shows "border_loop chip (before @ (material, name, vol) # rest) s =
         border_loop chip (before @ rest) s"
  using assms by (simp add: border_loop_eq list_surfaces_def)

theorem unrecognized_leaf_is_skipped_witness:
  "str_find ''Copper'' ''Vacuum'' = None \<and> str_find ''Copper'' ''Niobium'' = None
   \<and> border_loop (example_volume ''SiliconChip'')
        ([(''Vacuum'', ''gap'', example_volume ''gap'')] @
         (''Copper'', ''pad'', example_volume ''pad'') #
         [(''Niobium'', ''line'', example_volume ''line'')]) initial_state =
       border_loop (example_volume ''SiliconChip'')
        ([(''Vacuum'', ''gap'', example_volume ''gap'')] @
         [(''Niobium'', ''line'', example_volume ''line'')]) initial_state"
proof -
  have h1: "str_find ''Copper'' ''Vacuum'' = None" by simp
  have h2: "str_find ''Copper'' ''Niobium'' = None" by simp
  show ?thesis
    using h1 h2 unrecognized_leaf_is_skipped [OF h1 h2] by blast
qed

text \<open>
  C1 as stated, refuted. The transmission line lists one sub-volume of material
  \<^verbatim>\<open>"Copper"\<close>, which neither rule recognises. \<^verbatim>\<open>Construct\<close> returns the world and
  marks the detector as constructed; the table holds the surfaces of the world and of the
  ground plane and none for the sub-volume.
\<close>

theorem unrecognized_leaf_counterexample:
  "GetListOfAllFundamentalSubVolumes
     (constructed (tLine_parameters [(''Copper'', ''TransmissionLine_pad'')]) S_tLine) =
     [(''Copper'', ''TransmissionLine_pad'', example_volume ''TransmissionLine_pad'')]
   \<and> str_find ''Copper'' ''Vacuum'' = None \<and> str_find ''Copper'' ''Niobium'' = None
   \<and> fst (Construct (tLine_parameters [(''Copper'', ''TransmissionLine_pad'')]) initial_state) =
       Some \<lparr>pv_name = ''World'', lv_name = ''World'', lv_material = Some ''G4_AIR'',
             mother_lv = None\<rparr>
   \<and> fConstructed
        (snd (Construct (tLine_parameters [(''Copper'', ''TransmissionLine_pad'')]) initial_state))
   \<and> map bs_name (surfaceTable
        (snd (Construct (tLine_parameters [(''Copper'', ''TransmissionLine_pad'')]) initial_state))) =
       [''border_siliconChip_world'', ''border_siliconChip_groundPlane'']"
  by (simp add: built_clean [OF initial_clean] built_registries(4) built_fields built_volumes
        generation_defs example_defs)

subsection \<open>C2: at most one border surface per sub-volume\<close>

text \<open>
  C2, as the code has it. For a sub-volume whose material does not contain both
  \<^verbatim>\<open>"Vacuum"\<close> and \<^verbatim>\<open>"Niobium"\<close>, one step of the loop creates at most one border
  surface: with the Si-vacuum property when the material contains \<^verbatim>\<open>"Vacuum"\<close>, with the
  Si-Nb property when it contains \<^verbatim>\<open>"Niobium"\<close>, and none otherwise. The outcome is a
  function of the material alone.
\<close>

theorem one_rule_one_surface:
  assumes "str_find material ''Vacuum'' = None \<or> str_find material ''Niobium'' = None"
  shows "border_loop chip ((material, name, vol) # rest) s =
           border_loop chip rest
             (if str_find material ''Vacuum'' \<noteq> None
              then new_G4CMPLogicalBorderSurface (''border_siliconChip_'' @ name) chip vol
                     (fSiVacuumInterface s) s
              else if str_find material ''Niobium'' \<noteq> None
              then new_G4CMPLogicalBorderSurface (''border_siliconChip_'' @ name) chip vol
                     (fSiNbInterface s) s
              else s)
         \<and> length (surfaceTable (border_loop chip [(material, name, vol)] s))
             \<le> Suc (length (surfaceTable s))"
  using assms
  by (auto simp: border_loop_eq list_surfaces_def new_G4CMPLogicalBorderSurface_def)

theorem one_rule_one_surface_witness:
  "(str_find ''Niobium'' ''Vacuum'' = None \<and> str_find ''Niobium'' ''Niobium'' = Some 0)
   \<and> surfaceTable (border_loop (example_volume ''SiliconChip'')
        [(''Niobium'', ''line'', example_volume ''line'')]
        (initial_state\<lparr>fSiNbInterface := Some 0, fSiVacuumInterface := Some 2\<rparr>)) =
       [\<lparr>bs_name = ''border_siliconChip_line'', bs_vol1 = example_volume ''SiliconChip'',
         bs_vol2 = example_volume ''line'', bs_property = Some 0\<rparr>]"
proof -
  have h: "str_find ''Niobium'' ''Vacuum'' = None \<or> str_find ''Niobium'' ''Niobium'' = None"
    by simp
  show ?thesis
    using one_rule_one_surface [OF h, of "example_volume ''SiliconChip''" "''line''"
        "example_volume ''line''" "[]"
        "initial_state\<lparr>fSiNbInterface := Some 0, fSiVacuumInterface := Some 2\<rparr>"]
    by (simp add: new_G4CMPLogicalBorderSurface_def initial_state_def)
qed

text \<open>
  C2 as stated, refuted. The transmission line lists one sub-volume of material
  \<^verbatim>\<open>"NiobiumVacuumGap"\<close>; both rules match, and the build creates two border surfaces
  against it, of the same name, one with the Si-vacuum property (pointer 2) and one with
  the Si-Nb property (pointer 0).
\<close>

theorem two_rules_counterexample:
  "str_find ''NiobiumVacuumGap'' ''Vacuum'' = Some 7
   \<and> str_find ''NiobiumVacuumGap'' ''Niobium'' = Some 0
   \<and> filter (\<lambda>b. bs_vol2 b = example_volume ''TransmissionLine_gap'')
        (surfaceTable (snd (Construct
           (tLine_parameters [(''NiobiumVacuumGap'', ''TransmissionLine_gap'')]) initial_state))) =
       [\<lparr>bs_name = ''border_siliconChip_TransmissionLine_gap'',
         bs_vol1 = \<lparr>pv_name = ''SiliconChip'', lv_name = ''SiliconChip_log'',
                    lv_material = Some ''G4_Si'', mother_lv = Some ''World''\<rparr>,
         bs_vol2 = example_volume ''TransmissionLine_gap'', bs_property = Some 2\<rparr>,
        \<lparr>bs_name = ''border_siliconChip_TransmissionLine_gap'',
         bs_vol1 = \<lparr>pv_name = ''SiliconChip'', lv_name = ''SiliconChip_log'',
                    lv_material = Some ''G4_Si'', mother_lv = Some ''World''\<rparr>,
         bs_vol2 = example_volume ''TransmissionLine_gap'', bs_property = Some 0\<rparr>]"
  by (simp add: built_clean [OF initial_clean] built_volumes initial_pointers
        generation_defs example_defs example_volume_def)

subsection \<open>C3: building twice\<close>

text \<open>
  C3. Start in a process that has built nothing (not constructed, geometry not
  destroyed, empty registries), call \<^verbatim>\<open>Construct\<close>, and call it again with the same
  parameters, either at once or after the run manager has destroyed the geometry
  (\<open>destroyed\<close>: stores cleaned and the flag set). The second call first cleans the volume
  store, the lattice registrations and the table of border surfaces of the first
  generation and only then runs \<^verbatim>\<open>DefineMaterials\<close> and \<^verbatim>\<open>SetupGeometry\<close>; it leaves the same
  table of border surfaces (so the same names, each as often as before), the same
  lattice registrations, the same volumes and returns the same world. In particular the
  rebuild adds no repeated name: if the names of the first generation are distinct, so
  are those after the second call.
\<close>

theorem rebuild_idempotent:
  assumes "\<not> fConstructed s0" and "\<not> geometryHasBeenDestroyed s0"
    and "surfaceTable s0 = []" and "latticeTable s0 = []" and "volumeStore s0 = []"
  shows "let s1 = snd (Construct env s0);
             between = (if destroyed
                        then s1\<lparr>geometryHasBeenDestroyed := True, volumeStore := []\<rparr>
                        else s1);
             s2 = snd (Construct env between)
         in Construct env between =
              (fWorldPhys s2,
               (SetupGeometry env (DefineMaterials (clean_previous_generation between)))
                 \<lparr>fConstructed := True\<rparr>)
          \<and> surfaceTable (clean_previous_generation between) = []
          \<and> latticeTable (clean_previous_generation between) = []
          \<and> volumeStore (clean_previous_generation between) = []
          \<and> surfaceTable s2 = surfaceTable s1
          \<and> latticeTable s2 = latticeTable s1
          \<and> volumeStore s2 = volumeStore s1
          \<and> fst (Construct env between) = fst (Construct env s0)
          \<and> (distinct (map bs_name (surfaceTable s1)) \<longrightarrow>
               distinct (map bs_name (surfaceTable s2)))"
proof -
  define s1 where "s1 = snd (Construct env s0)"
  define between where "between =
    (if destroyed then s1\<lparr>geometryHasBeenDestroyed := True, volumeStore := []\<rparr> else s1)"
  define s2 where "s2 = snd (Construct env between)"
  have s1: "fConstructed s1" "fLiquidHelium s1 = Some ''G4_AIR''"
    "fSilicon s1 = Some ''G4_Si''" "fNiobium s1 = Some ''G4_Nb''"
    "\<not> geometryHasBeenDestroyed s1"
    using assms by (simp_all add: s1_def built_fields)
  have b: "fConstructed between" "fLiquidHelium between = Some ''G4_AIR''"
    "fSilicon between = Some ''G4_Si''" "fNiobium between = Some ''G4_Nb''"
    "geometryHasBeenDestroyed between \<longrightarrow> volumeStore between = []"
    using s1 by (simp_all add: between_def)
  have same: "generation_surfaces env between = generation_surfaces env s1"
    "generation_volumes env between = generation_volumes env s1"
    "phys_siliconChip between = phys_siliconChip s1"
    by (auto intro!: generation_cong simp: between_def phys_siliconChip_def)
  have gen1: "surfaceTable s1 = generation_surfaces env s1"
    "volumeStore s1 = generation_volumes env s1"
    "latticeTable s1 = [(phys_siliconChip s1, \<lparr>lat_name = ''Si'', lat_miller = (1, 0, 0)\<rparr>)]"
    using assms by (simp_all add: s1_def built_registries)
  have gen2: "surfaceTable s2 = generation_surfaces env s1"
    "volumeStore s2 = generation_volumes env s1"
    "latticeTable s2 = [(phys_siliconChip s1, \<lparr>lat_name = ''Si'', lat_miller = (1, 0, 0)\<rparr>)]"
    using b by (auto simp: s2_def built_registries rebuild_generation same)
  have clean: "surfaceTable (clean_previous_generation between) = []"
    "latticeTable (clean_previous_generation between) = []"
    "volumeStore (clean_previous_generation between) = []"
    using b by (auto simp: clean_previous_generation_def Let_def)
  have order: "Construct env between =
      (fWorldPhys s2,
       (SetupGeometry env (DefineMaterials (clean_previous_generation between)))
         \<lparr>fConstructed := True\<rparr>)"
    using b(1) by (simp add: s2_def Construct_def Let_def)
  have world: "fst (Construct env between) = fst (Construct env s0)"
    by (simp add: built_registries(4) built_volumes)
  show ?thesis
    unfolding Let_def s1_def [symmetric] between_def [symmetric] s2_def [symmetric]
    using order clean gen1 gen2 world by simp
qed

theorem rebuild_idempotent_witness:
  "\<not> fConstructed initial_state \<and> \<not> geometryHasBeenDestroyed initial_state
   \<and> surfaceTable initial_state = [] \<and> latticeTable initial_state = []
   \<and> volumeStore initial_state = []
   \<and> map bs_name (surfaceTable (snd (Construct transmon_parameters
         (snd (Construct transmon_parameters initial_state))))) =
       [''border_siliconChip_world'', ''border_siliconChip_groundPlane'',
        ''border_siliconChip_Transmon_conductor'', ''border_siliconChip_Transmon_conductor'']
   \<and> length (volumeStore (snd (Construct transmon_parameters
         (snd (Construct transmon_parameters initial_state))))) = 17
   \<and> length (latticeTable (snd (Construct transmon_parameters
         (snd (Construct transmon_parameters initial_state))))) = 1"
proof -
  have h: "\<not> fConstructed initial_state" "\<not> geometryHasBeenDestroyed initial_state"
    "surfaceTable initial_state = []" "latticeTable initial_state = []"
    "volumeStore initial_state = []"
    by (simp_all add: initial_state_def)
  have first: "map bs_name (surfaceTable (snd (Construct transmon_parameters initial_state))) =
       [''border_siliconChip_world'', ''border_siliconChip_groundPlane'',
        ''border_siliconChip_Transmon_conductor'', ''border_siliconChip_Transmon_conductor'']"
    "length (volumeStore (snd (Construct transmon_parameters initial_state))) = 17"
    "length (latticeTable (snd (Construct transmon_parameters initial_state))) = 1"
    by (simp_all add: built_clean [OF initial_clean] built_registries(3) h generation_defs
          qubit_element_objects_def example_defs)
  show ?thesis
    using h first rebuild_idempotent [OF h, of transmon_parameters False]
    by (simp add: Let_def)
qed

subsection \<open>C4: names and substrate side of the border surfaces\<close>

text \<open>
  C4, as the code has it. In a build that starts from clean registries, every border
  surface of the table has the chip's volume as its first volume, and its name is
  \<^verbatim>\<open>border_siliconChip_\<close> followed by \<^verbatim>\<open>world\<close>, \<^verbatim>\<open>qubitHousing\<close> or \<^verbatim>\<open>groundPlane\<close>, or
  followed by the name of a sub-volume that one of the sub-assemblies the code loops
  over lists, the surface's second volume being that sub-volume. That the names differ
  from one another is not part of the statement: the code takes the rest of each name
  from the list of the sub-assembly and compares no names.
\<close>

theorem substrate_side_of_every_surface:
  assumes "starts_clean s"
  shows "\<forall>b \<in> set (surfaceTable (snd (Construct env s))).
           bs_vol1 b = phys_siliconChip (snd (Construct env s))
           \<and> (bs_name b \<in> {''border_siliconChip_world'', ''border_siliconChip_qubitHousing'',
                            ''border_siliconChip_groundPlane''}
              \<or> (\<exists>st \<in> set (groundPlane_sites env). \<exists>(material, name, vol) \<in>
                     set (GetListOfAllFundamentalSubVolumes (constructed env st)).
                   bs_name b = ''border_siliconChip_'' @ name \<and> bs_vol2 b = vol))"
proof
  fix b
  assume "b \<in> set (surfaceTable (snd (Construct env s)))"
  then have b: "b \<in> set (generation_surfaces env (snd (Construct env s)))"
    using assms by (simp add: built_clean)
  let ?chip = "phys_siliconChip (snd (Construct env s))"
  consider (fixed) "bs_vol1 b = ?chip" "bs_name b \<in> {''border_siliconChip_world'',
        ''border_siliconChip_qubitHousing'', ''border_siliconChip_groundPlane''}"
    | (leaf) "b \<in> set (site_surfaces env ?chip (fSiVacuumInterface (snd (Construct env s)))
        (fSiNbInterface (snd (Construct env s))) (groundPlane_sites env))"
    using b by (auto simp: generation_surfaces_def split: if_splits)
  then show "bs_vol1 b = ?chip
           \<and> (bs_name b \<in> {''border_siliconChip_world'', ''border_siliconChip_qubitHousing'',
                            ''border_siliconChip_groundPlane''}
              \<or> (\<exists>st \<in> set (groundPlane_sites env). \<exists>(material, name, vol) \<in>
                     set (GetListOfAllFundamentalSubVolumes (constructed env st)).
                   bs_name b = ''border_siliconChip_'' @ name \<and> bs_vol2 b = vol))"
  proof cases
    case fixed
    then show ?thesis by blast
  next
    case leaf
    from site_surfaces_origin [OF leaf] show ?thesis by blast
  qed
qed

theorem substrate_side_of_every_surface_witness:
  "starts_clean initial_state
   \<and> map bs_vol1 (surfaceTable (snd (Construct transmon_parameters initial_state))) =
       replicate 4 \<lparr>pv_name = ''SiliconChip'', lv_name = ''SiliconChip_log'',
                    lv_material = Some ''G4_Si'', mother_lv = Some ''World''\<rparr>
   \<and> list_all (\<lambda>b. bs_vol1 b = phys_siliconChip (snd (Construct transmon_parameters initial_state)))
        (surfaceTable (snd (Construct transmon_parameters initial_state)))"
proof -
  have vol1s: "map bs_vol1 (surfaceTable (snd (Construct transmon_parameters initial_state))) =
       replicate 4 \<lparr>pv_name = ''SiliconChip'', lv_name = ''SiliconChip_log'',
                    lv_material = Some ''G4_Si'', mother_lv = Some ''World''\<rparr>"
    by (simp add: built_clean [OF initial_clean] built_volumes initial_pointers
        generation_defs example_defs numeral_eq_Suc)
  have "list_all (\<lambda>b. bs_vol1 b = phys_siliconChip (snd (Construct transmon_parameters initial_state)))
        (surfaceTable (snd (Construct transmon_parameters initial_state)))"
    using substrate_side_of_every_surface [OF initial_clean, of transmon_parameters]
    unfolding list_all_iff by blast
  then show ?thesis
    using initial_clean vol1s by blast
qed

text \<open>
  C4 as stated, refuted. Both transmons are constructed under the name \<^verbatim>\<open>"Transmon"\<close>;
  when each lists a sub-volume whose name derives from that name, the table holds two
  border surfaces of one name.
\<close>

theorem duplicate_names_counterexample:
  "map bs_name (surfaceTable (snd (Construct transmon_parameters initial_state))) =
     [''border_siliconChip_world'', ''border_siliconChip_groundPlane'',
      ''border_siliconChip_Transmon_conductor'', ''border_siliconChip_Transmon_conductor'']
   \<and> \<not> distinct (map bs_name (surfaceTable (snd (Construct transmon_parameters initial_state))))"
  by (simp add: built_clean [OF initial_clean] built_volumes initial_pointers
        generation_defs example_defs)

subsection \<open>C5: the ground plane with every other toggle off\<close>




subsection \<open>C6: the flux lines\<close>

text \<open>
  C6, as the code has it. With \<^verbatim>\<open>dp_useGroundPlane\<close> and \<^verbatim>\<open>dp_useFluxLines\<close> true, a build
  that starts from clean registries constructs three curved flux lines, named
  \<^verbatim>\<open>TopStraightFluxLine\<close>, \<^verbatim>\<open>BottomStraightFluxLine\<close> and \<^verbatim>\<open>bottomRightFluxLine\<close>, and for
  each of them every sub-volume of its list gets the border surfaces of the two rules:
  one with the Si-vacuum property when its material contains \<^verbatim>\<open>"Vacuum"\<close>, one with the
  Si-Nb property when it contains \<^verbatim>\<open>"Niobium"\<close>.
\<close>

theorem flux_lines_built:
  assumes "dp_useGroundPlane env" and "dp_useFluxLines env" and "starts_clean s"
  shows "let s' = snd (Construct env s);
             chip = phys_siliconChip s'
         in objects_of_class FourQubitCurveFluxLine (volumeStore s') =
              [AssemblyObject FourQubitCurveFluxLine ''TopStraightFluxLine'' ''GroundPlane_log'',
               AssemblyObject FourQubitCurveFluxLine ''BottomStraightFluxLine'' ''GroundPlane_log'',
               AssemblyObject FourQubitCurveFluxLine ''bottomRightFluxLine'' ''GroundPlane_log'']
          \<and> (\<forall>st \<in> {S_topStraightFLine, S_bottomStraightFLine, S_bottomRightFLine}.
               \<forall>(material, name, vol) \<in>
                   set (GetListOfAllFundamentalSubVolumes (constructed env st)).
                 (str_find material ''Vacuum'' \<noteq> None \<longrightarrow>
                    \<lparr>bs_name = ''border_siliconChip_'' @ name, bs_vol1 = chip, bs_vol2 = vol,
                     bs_property = fSiVacuumInterface s'\<rparr> \<in> set (surfaceTable s'))
                 \<and> (str_find material ''Niobium'' \<noteq> None \<longrightarrow>
                    \<lparr>bs_name = ''border_siliconChip_'' @ name, bs_vol1 = chip, bs_vol2 = vol,
                     bs_property = fSiNbInterface s'\<rparr> \<in> set (surfaceTable s')))"
proof -
  let ?s = "snd (Construct env s)"
  have vols: "objects_of_class FourQubitCurveFluxLine (volumeStore ?s) = fluxLine_objects"
    using assms
    by (simp add: built_clean generation_volumes_def groundPlane_objects_def
          objects_of_class_simps objects_of_class_fixed)
  have surfs: "set (site_surfaces env (phys_siliconChip ?s) (fSiVacuumInterface ?s)
                 (fSiNbInterface ?s) fluxLine_sites) \<subseteq> set (surfaceTable ?s)"
    using assms
    by (auto simp: built_clean generation_surfaces_def groundPlane_sites_def
          site_surfaces_append)
  have leaf: "set (leaf_surfaces (phys_siliconChip ?s) (fSiVacuumInterface ?s)
                 (fSiNbInterface ?s) l) \<subseteq> set (surfaceTable ?s)"
    if "st \<in> set fluxLine_sites"
      and "l \<in> set (GetListOfAllFundamentalSubVolumes (constructed env st))" for st l
    using that surfs by (fastforce simp: site_surfaces_def list_surfaces_def)
  show ?thesis
    unfolding Let_def
  proof (intro conjI ballI)
    show "objects_of_class FourQubitCurveFluxLine (volumeStore ?s) =
            [AssemblyObject FourQubitCurveFluxLine ''TopStraightFluxLine'' ''GroundPlane_log'',
             AssemblyObject FourQubitCurveFluxLine ''BottomStraightFluxLine'' ''GroundPlane_log'',
             AssemblyObject FourQubitCurveFluxLine ''bottomRightFluxLine'' ''GroundPlane_log'']"
      using vols by (simp add: fluxLine_objects_def)
  next
    fix st l
    assume st: "st \<in> {S_topStraightFLine, S_bottomStraightFLine, S_bottomRightFLine}"
      and l: "l \<in> set (GetListOfAllFundamentalSubVolumes (constructed env st))"
    from st have "st \<in> set fluxLine_sites" by (simp add: fluxLine_sites_def)
    from leaf [OF this l]
    show "case l of (material, name, vol) \<Rightarrow>
            (str_find material ''Vacuum'' \<noteq> None \<longrightarrow>
               \<lparr>bs_name = ''border_siliconChip_'' @ name, bs_vol1 = phys_siliconChip ?s,
                bs_vol2 = vol, bs_property = fSiVacuumInterface ?s\<rparr> \<in> set (surfaceTable ?s))
            \<and> (str_find material ''Niobium'' \<noteq> None \<longrightarrow>
               \<lparr>bs_name = ''border_siliconChip_'' @ name, bs_vol1 = phys_siliconChip ?s,
                bs_vol2 = vol, bs_property = fSiNbInterface ?s\<rparr> \<in> set (surfaceTable ?s))"
      by (cases l) (auto split: if_splits)
  qed
qed

theorem flux_lines_built_witness:
  "dp_useGroundPlane fluxLine_parameters \<and> dp_useFluxLines fluxLine_parameters
   \<and> starts_clean initial_state
   \<and> length (objects_of_class FourQubitCurveFluxLine
        (volumeStore (snd (Construct fluxLine_parameters initial_state)))) = 3
   \<and> \<lparr>bs_name = ''border_siliconChip_bottomRightFluxLine_conductor'',
       bs_vol1 = phys_siliconChip (snd (Construct fluxLine_parameters initial_state)),
       bs_vol2 = example_volume ''bottomRightFluxLine_conductor'',
       bs_property = Some 0\<rparr>
      \<in> set (surfaceTable (snd (Construct fluxLine_parameters initial_state)))
   \<and> \<lparr>bs_name = ''border_siliconChip_bottomRightFluxLine_empty'',
       bs_vol1 = phys_siliconChip (snd (Construct fluxLine_parameters initial_state)),
       bs_vol2 = example_volume ''bottomRightFluxLine_empty'',
       bs_property = Some 2\<rparr>
      \<in> set (surfaceTable (snd (Construct fluxLine_parameters initial_state)))"
proof -
  have h: "dp_useGroundPlane fluxLine_parameters" "dp_useFluxLines fluxLine_parameters"
    by (simp_all add: example_defs)
  show ?thesis
    using h initial_clean flux_lines_built [OF h initial_clean]
    by (simp add: Let_def example_defs initial_pointers)
qed

text \<open>
  C6 as stated, refuted. With the flux lines switched on, the store holds three curved
  flux lines, not two.
\<close>

theorem flux_lines_counterexample:
  "dp_useGroundPlane fluxLine_parameters \<and> dp_useFluxLines fluxLine_parameters
   \<and> objects_of_class FourQubitCurveFluxLine
        (volumeStore (snd (Construct fluxLine_parameters initial_state))) =
       [AssemblyObject FourQubitCurveFluxLine ''TopStraightFluxLine'' ''GroundPlane_log'',
        AssemblyObject FourQubitCurveFluxLine ''BottomStraightFluxLine'' ''GroundPlane_log'',
        AssemblyObject FourQubitCurveFluxLine ''bottomRightFluxLine'' ''GroundPlane_log'']
   \<and> length (objects_of_class FourQubitCurveFluxLine
        (volumeStore (snd (Construct fluxLine_parameters initial_state)))) \<noteq> 2"
  by (simp add: built_clean [OF initial_clean] generation_volumes_def groundPlane_objects_def
        objects_of_class_simps objects_of_class_fixed example_defs fluxLine_objects_def)

subsection \<open>C7: the elements of the chain\<close>

text \<open>
  C7, at a failing input. The ground plane is on; the first and the second curve of the
  chain each list a niobium and a vacuum sub-volume. The second curve is constructed
  (its object is in the store), and both of its sub-volumes match a rule, yet the table
  holds border surfaces for the sub-volumes of the first curve only: the code has a loop
  for \<^verbatim>\<open>bottomStraight1\<close> and one for \<^verbatim>\<open>bottomCurve1\<close> and none for the other four
  elements of the chain.
\<close>

theorem chain_elements_without_surfaces:
  "map (\<lambda>(material, name, vol). (material, name))
     (GetListOfAllFundamentalSubVolumes (constructed chain_parameters S_bottomCurve2)) =
     [(''Niobium'', ''Curve2_conductor''), (''Vacuum'', ''Curve2_empty'')]
   \<and> AssemblyObject FourQubitCurve ''Curve2'' ''GroundPlane_log''
        \<in> set (volumeStore (snd (Construct chain_parameters initial_state)))
   \<and> map bs_name (surfaceTable (snd (Construct chain_parameters initial_state))) =
       [''border_siliconChip_world'', ''border_siliconChip_groundPlane'',
        ''border_siliconChip_Curve1_conductor'', ''border_siliconChip_Curve1_empty'']"
  by (simp add: built_clean [OF initial_clean] generation_defs qubit_element_objects_def
        example_defs)

subsection \<open>C8: building without the ground plane\<close>

text \<open>
  C8, as the code has it. With \<^verbatim>\<open>dp_useGroundPlane\<close> false, a build that starts from clean
  registries leaves the world and exactly one substrate volume in the store, and the
  substrate-world border surface in the table; when \<^verbatim>\<open>dp_useQubitHousing\<close> is set, the
  housing object and the substrate-housing border surface come in addition, so there is
  exactly one border surface when the housing is off. Nothing nested in the ground plane
  is constructed, and the toggles of the transmission line, the resonator assemblies and
  the flux lines are inert: whatever their values, \<^verbatim>\<open>Construct\<close> returns the same result.
\<close>

theorem without_ground_plane:
  assumes "\<not> dp_useGroundPlane env" and "starts_clean s"
  shows "let s' = snd (Construct env s);
             chip = phys_siliconChip s';
             world = phys_world s'
         in volumeStore s' =
              [PVPlacement world, PVPlacement chip] @
              (if dp_useQubitHousing env
               then [AssemblyObject FourQubitQubitHousing ''QubitHousing'' ''World''] else [])
          \<and> length (filter (\<lambda>e. e = PVPlacement chip) (volumeStore s')) = 1
          \<and> surfaceTable s' =
              [\<lparr>bs_name = ''border_siliconChip_world'', bs_vol1 = chip, bs_vol2 = world,
                bs_property = fSiVacuumInterface s'\<rparr>] @
              (if dp_useQubitHousing env
               then [\<lparr>bs_name = ''border_siliconChip_qubitHousing'', bs_vol1 = chip,
                      bs_vol2 = GetPhysicalVolume (constructed env S_qubitHousing),
                      bs_property = fSiCopperInterface s'\<rparr>] else [])
          \<and> (\<not> dp_useQubitHousing env \<longrightarrow> length (surfaceTable s') = 1)
          \<and> (\<forall>t r f.
                Construct (env\<lparr>dp_useTransmissionLine := t, dp_useResonatorAssembly := r,
                               dp_useFluxLines := f\<rparr>) s = Construct env s)"
proof -
  have vols: "volumeStore (snd (Construct env s)) =
      [PVPlacement (phys_world (snd (Construct env s))),
       PVPlacement (phys_siliconChip (snd (Construct env s)))] @
      (if dp_useQubitHousing env
       then [AssemblyObject FourQubitQubitHousing ''QubitHousing'' ''World''] else [])"
    using assms by (simp add: built_clean generation_volumes_def)
  have surfs: "surfaceTable (snd (Construct env s)) =
      [\<lparr>bs_name = ''border_siliconChip_world'',
        bs_vol1 = phys_siliconChip (snd (Construct env s)),
        bs_vol2 = phys_world (snd (Construct env s)),
        bs_property = fSiVacuumInterface (snd (Construct env s))\<rparr>] @
      (if dp_useQubitHousing env
       then [\<lparr>bs_name = ''border_siliconChip_qubitHousing'',
              bs_vol1 = phys_siliconChip (snd (Construct env s)),
              bs_vol2 = GetPhysicalVolume (constructed env S_qubitHousing),
              bs_property = fSiCopperInterface (snd (Construct env s))\<rparr>] else [])"
    using assms by (simp add: built_clean generation_surfaces_def)
  have one: "length (filter (\<lambda>e. e = PVPlacement (phys_siliconChip (snd (Construct env s))))
      (volumeStore (snd (Construct env s)))) = 1"
    unfolding vols by (simp add: built_volumes)
  show ?thesis
    unfolding Let_def using vols surfs one toggles_inert [OF assms(1)] by simp
qed

theorem without_ground_plane_witness:
  "\<not> dp_useGroundPlane (example_parameters\<lparr>dp_useGroundPlane := False, dp_useFluxLines := True\<rparr>)
   \<and> starts_clean initial_state
   \<and> volumeStore (snd (Construct
         (example_parameters\<lparr>dp_useGroundPlane := False, dp_useFluxLines := True\<rparr>)
         initial_state)) =
       [PVPlacement \<lparr>pv_name = ''World'', lv_name = ''World'', lv_material = Some ''G4_AIR'',
          mother_lv = None\<rparr>,
        PVPlacement \<lparr>pv_name = ''SiliconChip'', lv_name = ''SiliconChip_log'',
          lv_material = Some ''G4_Si'', mother_lv = Some ''World''\<rparr>]
   \<and> map bs_name (surfaceTable (snd (Construct
         (example_parameters\<lparr>dp_useGroundPlane := False, dp_useFluxLines := True\<rparr>)
         initial_state))) = [''border_siliconChip_world'']"
proof -
  have h1: "\<not> dp_useGroundPlane
      (example_parameters\<lparr>dp_useGroundPlane := False, dp_useFluxLines := True\<rparr>)"
    by (simp add: example_parameters_def)
  have h2: "starts_clean initial_state"
    by (simp add: starts_clean_def initial_state_def)
  show ?thesis
    using h1 h2 without_ground_plane [OF h1 h2]
    by (simp add: Let_def example_parameters_def built_volumes)
qed

text \<open>
  C8 as stated, refuted. With the ground plane off and the housing on, the table holds
  two border surfaces: the one of the world and the one of the housing.
\<close>

theorem without_ground_plane_counterexample:
  "\<not> dp_useGroundPlane (example_parameters\<lparr>dp_useGroundPlane := False, dp_useQubitHousing := True\<rparr>)
   \<and> map bs_name (surfaceTable (snd (Construct
         (example_parameters\<lparr>dp_useGroundPlane := False, dp_useQubitHousing := True\<rparr>)
         initial_state))) =
       [''border_siliconChip_world'', ''border_siliconChip_qubitHousing'']
   \<and> length (surfaceTable (snd (Construct
         (example_parameters\<lparr>dp_useGroundPlane := False, dp_useQubitHousing := True\<rparr>)
         initial_state))) \<noteq> 1"
  by (simp add: built_clean [OF initial_clean] generation_surfaces_def example_parameters_def)

subsection \<open>C9: attaching the phonon sensor\<close>

text \<open>
  C9. \<^verbatim>\<open>AttachPhononSensor\<close> on the null pointer returns the state unchanged. On any
  pointer it changes nothing but the heap of surface properties, and attaching twice is
  the same as attaching once. On a pointer to an object of the heap it replaces that
  object by the object with the sensor model: the phonon electrode is set and the eight
  constant properties of the sensor have the values of the source, whatever the object
  held before.
\<close>

theorem AttachPhononSensor_null_and_replace:
  "AttachPhononSensor env None s = s
   \<and> AttachPhononSensor env p (AttachPhononSensor env p s) = AttachPhononSensor env p s
   \<and> AttachPhononSensor env p s =
       s\<lparr>surfaceProperties := surfaceProperties (AttachPhononSensor env p s)\<rparr>
   \<and> (i < length (surfaceProperties s) \<longrightarrow>
         surfaceProperties (AttachPhononSensor env (Some i) s) =
           (surfaceProperties s)[i := sensor_model env (surfaceProperties s ! i)]
       \<and> sp_phononElectrode (surfaceProperties (AttachPhononSensor env (Some i) s) ! i) =
           Some G4CMPPhononElectrode
       \<and> map (sp_phononProperties (surfaceProperties (AttachPhononSensor env (Some i) s) ! i))
           [''filmAbsorption'', ''filmThickness'', ''gapEnergy'', ''lowQPLimit'',
            ''phononLifetime'', ''phononLifetimeSlope'', ''vSound'', ''subgapAbsorption''] =
           [Some 0, Some (90 * CLHEP_nm env), Some (0.0016 * CLHEP_eV env), Some 3,
            Some (4.17 * CLHEP_ps env), Some 0.29,
            Some (3.480 * CLHEP_km env / CLHEP_s env), Some 0])"
proof (intro conjI impI)
  show "AttachPhononSensor env None s = s"
    by (simp add: AttachPhononSensor_def)
  show "AttachPhononSensor env p (AttachPhononSensor env p s) = AttachPhononSensor env p s"
    by (cases p) (simp_all add: AttachPhononSensor_def on_property_def sensor_model_idem)
  show "AttachPhononSensor env p s =
          s\<lparr>surfaceProperties := surfaceProperties (AttachPhononSensor env p s)\<rparr>"
    by (cases p) (simp_all add: AttachPhononSensor_def)
next
  assume i: "i < length (surfaceProperties s)"
  then show attached: "surfaceProperties (AttachPhononSensor env (Some i) s) =
      (surfaceProperties s)[i := sensor_model env (surfaceProperties s ! i)]"
    by (simp add: AttachPhononSensor_def on_property_def)
  from i show "sp_phononElectrode (surfaceProperties (AttachPhononSensor env (Some i) s) ! i) =
      Some G4CMPPhononElectrode"
    unfolding attached by (simp add: sensor_model_fields)
  from i show "map (sp_phononProperties (surfaceProperties (AttachPhononSensor env (Some i) s) ! i))
           [''filmAbsorption'', ''filmThickness'', ''gapEnergy'', ''lowQPLimit'',
            ''phononLifetime'', ''phononLifetimeSlope'', ''vSound'', ''subgapAbsorption''] =
           [Some 0, Some (90 * CLHEP_nm env), Some (0.0016 * CLHEP_eV env), Some 3,
            Some (4.17 * CLHEP_ps env), Some 0.29,
            Some (3.480 * CLHEP_km env / CLHEP_s env), Some 0]"
    unfolding attached by (simp only: nth_list_update_eq sensor_model_fields)
qed

theorem AttachPhononSensor_null_and_replace_witness:
  "0 < length (surfaceProperties
         (initial_state\<lparr>surfaceProperties := [property_object ''SiNbInterface'' []]\<rparr>))
   \<and> sp_phononElectrode (surfaceProperties (AttachPhononSensor example_parameters (Some 0)
         (initial_state\<lparr>surfaceProperties := [property_object ''SiNbInterface'' []]\<rparr>)) ! 0) =
       Some G4CMPPhononElectrode
   \<and> AttachPhononSensor example_parameters None initial_state = initial_state"
proof -
  have h: "0 < length (surfaceProperties
         (initial_state\<lparr>surfaceProperties := [property_object ''SiNbInterface'' []]\<rparr>))"
    by simp
  have e: "sp_phononElectrode (surfaceProperties (AttachPhononSensor example_parameters (Some 0)
         (initial_state\<lparr>surfaceProperties := [property_object ''SiNbInterface'' []]\<rparr>)) ! 0) =
       Some G4CMPPhononElectrode"
    using h AttachPhononSensor_null_and_replace [of example_parameters
      "initial_state\<lparr>surfaceProperties := [property_object ''SiNbInterface'' []]\<rparr>" None 0]
    by blast
  have n: "AttachPhononSensor example_parameters None initial_state = initial_state"
    using AttachPhononSensor_null_and_replace [of example_parameters initial_state None 0]
    by blast
  show ?thesis using h e n by blast
qed

subsection \<open>C10: the surface properties are defined once\<close>

text \<open>
  C10. A first build (\<^verbatim>\<open>fConstructed\<close> false) allocates three surface properties, named
  \<^verbatim>\<open>SiNbInterface\<close>, \<^verbatim>\<open>SiCopperInterface\<close> and \<^verbatim>\<open>SiVacuumInterface\<close>, each with the
  scattering properties of the source and the Si-Nb one alone with the phonon sensor,
  and points the three members at them. A build of a constructed detector leaves the
  heap of surface properties and the three pointers as they are; the clean-up of the
  previous generation does not touch the heap. Every build ends with \<^verbatim>\<open>fConstructed\<close>
  true, so after any number of further builds the heap and the pointers are those the
  first call left.
\<close>

theorem surface_properties_defined_once:
  "let s' = snd (Construct env s) in
     (\<not> fConstructed s \<longrightarrow>
        surfaceProperties s' =
          surfaceProperties s @
          [SiNbInterface_object env, SiCopperInterface_object env, SiVacuumInterface_object env]
        \<and> fSiNbInterface s' = Some (length (surfaceProperties s))
        \<and> fSiCopperInterface s' = Some (length (surfaceProperties s) + 1)
        \<and> fSiVacuumInterface s' = Some (length (surfaceProperties s) + 2))
     \<and> (fConstructed s \<longrightarrow>
        surfaceProperties s' = surfaceProperties s
        \<and> fSiNbInterface s' = fSiNbInterface s
        \<and> fSiCopperInterface s' = fSiCopperInterface s
        \<and> fSiVacuumInterface s' = fSiVacuumInterface s)
     \<and> fConstructed s'
     \<and> surfaceProperties (clean_previous_generation s) = surfaceProperties s
     \<and> (\<forall>n. surfaceProperties (((\<lambda>s. snd (Construct env s)) ^^ Suc n) s) =
               surfaceProperties s'
            \<and> fSiNbInterface (((\<lambda>s. snd (Construct env s)) ^^ Suc n) s) = fSiNbInterface s'
            \<and> fSiCopperInterface (((\<lambda>s. snd (Construct env s)) ^^ Suc n) s) =
                fSiCopperInterface s'
            \<and> fSiVacuumInterface (((\<lambda>s. snd (Construct env s)) ^^ Suc n) s) =
                fSiVacuumInterface s')
     \<and> map sp_name [SiNbInterface_object env, SiCopperInterface_object env,
          SiVacuumInterface_object env] =
         [''SiNbInterface'', ''SiCopperInterface'', ''SiVacuumInterface'']
     \<and> map sp_phononElectrode [SiNbInterface_object env, SiCopperInterface_object env,
          SiVacuumInterface_object env] = [Some G4CMPPhononElectrode, None, None]
     \<and> map sp_scattering [SiNbInterface_object env, SiCopperInterface_object env,
          SiVacuumInterface_object env] =
         replicate 3 (Some \<lparr>sc_anhCutoff = 520, sc_reflCutoff = 350,
           sc_anhCoeffs = [0, 0, 0, 0, 0, 0], sc_diffCoeffs = [1, 0, 0, 0, 0, 0],
           sc_specCoeffs = [0, 0, 0, 0, 0, 0],
           sc_anhFreqUnits = 1000000000 * hertz env,
           sc_diffFreqUnits = 1000000000 * hertz env,
           sc_specFreqUnits = 1000000000 * hertz env\<rparr>)"
proof -
  have first: "\<not> fConstructed s \<Longrightarrow>
      surfaceProperties (snd (Construct env s)) =
        surfaceProperties s @
        [SiNbInterface_object env, SiCopperInterface_object env, SiVacuumInterface_object env]
      \<and> fSiNbInterface (snd (Construct env s)) = Some (length (surfaceProperties s))
      \<and> fSiCopperInterface (snd (Construct env s)) = Some (length (surfaceProperties s) + 1)
      \<and> fSiVacuumInterface (snd (Construct env s)) = Some (length (surfaceProperties s) + 2)"
    by (simp add: built_fields prepared_pointers prepared_surfaceProperties)
  have clean: "surfaceProperties (clean_previous_generation s) = surfaceProperties s"
    by (simp add: clean_previous_generation_def Let_def)
  note later = rebuild_keeps_properties [of s env]
  note again = repeated_builds [where env = env and s = s]
  show ?thesis
    unfolding Let_def
  proof (intro conjI impI allI)
    assume "\<not> fConstructed s"
    from first [OF this]
    show "surfaceProperties (snd (Construct env s)) =
        surfaceProperties s @
        [SiNbInterface_object env, SiCopperInterface_object env, SiVacuumInterface_object env]"
      and "fSiNbInterface (snd (Construct env s)) = Some (length (surfaceProperties s))"
      and "fSiCopperInterface (snd (Construct env s)) = Some (length (surfaceProperties s) + 1)"
      and "fSiVacuumInterface (snd (Construct env s)) = Some (length (surfaceProperties s) + 2)"
      by blast+
  next
    assume "fConstructed s"
    from later [OF this]
    show "surfaceProperties (snd (Construct env s)) = surfaceProperties s"
      and "fSiNbInterface (snd (Construct env s)) = fSiNbInterface s"
      and "fSiCopperInterface (snd (Construct env s)) = fSiCopperInterface s"
      and "fSiVacuumInterface (snd (Construct env s)) = fSiVacuumInterface s"
      by blast+
  next
    show "fConstructed (snd (Construct env s))"
      by (rule built_fields(1))
    show "surfaceProperties (clean_previous_generation s) = surfaceProperties s"
      by (rule clean)
  next
    fix n
    from again [of n]
    show "surfaceProperties (((\<lambda>s. snd (Construct env s)) ^^ Suc n) s) =
        surfaceProperties (snd (Construct env s))"
      and "fSiNbInterface (((\<lambda>s. snd (Construct env s)) ^^ Suc n) s) =
        fSiNbInterface (snd (Construct env s))"
      and "fSiCopperInterface (((\<lambda>s. snd (Construct env s)) ^^ Suc n) s) =
        fSiCopperInterface (snd (Construct env s))"
      and "fSiVacuumInterface (((\<lambda>s. snd (Construct env s)) ^^ Suc n) s) =
        fSiVacuumInterface (snd (Construct env s))"
      by blast+
  qed (rule property_objects)+
qed

theorem surface_properties_defined_once_witness:
  "\<not> fConstructed initial_state
   \<and> map sp_name (surfaceProperties (snd (Construct example_parameters initial_state))) =
       [''SiNbInterface'', ''SiCopperInterface'', ''SiVacuumInterface'']
   \<and> fConstructed (snd (Construct example_parameters initial_state))
   \<and> map sp_name (surfaceProperties (snd (Construct example_parameters
         (snd (Construct example_parameters initial_state))))) =
       [''SiNbInterface'', ''SiCopperInterface'', ''SiVacuumInterface'']"
proof -
  have h: "\<not> fConstructed initial_state" "surfaceProperties initial_state = []"
    by (simp_all add: initial_state_def)
  note t1 = surface_properties_defined_once [of example_parameters initial_state]
  note t2 = surface_properties_defined_once [of example_parameters
      "snd (Construct example_parameters initial_state)"]
  have c: "fConstructed (snd (Construct example_parameters initial_state))"
    using t1 by (simp add: Let_def)
  have p1: "surfaceProperties (snd (Construct example_parameters initial_state)) =
      [SiNbInterface_object example_parameters, SiCopperInterface_object example_parameters,
       SiVacuumInterface_object example_parameters]"
    using t1 h by (simp add: Let_def)
  have p2: "surfaceProperties (snd (Construct example_parameters
         (snd (Construct example_parameters initial_state)))) =
      surfaceProperties (snd (Construct example_parameters initial_state))"
    using t2 c by (simp add: Let_def)
  have names: "map sp_name [SiNbInterface_object example_parameters,
       SiCopperInterface_object example_parameters,
       SiVacuumInterface_object example_parameters] =
      [''SiNbInterface'', ''SiCopperInterface'', ''SiVacuumInterface'']"
    using t1 by (simp only: Let_def)
  show ?thesis
    using h(1) c names by (simp only: p2 p1 simp_thms)
qed

end
